theory Spec2Isabelle
  imports Main "HOL-Library.AList" "HOL-Library.Char_ord" "HOL-Library.List_Lexorder"
begin

section \<open>Data model (src/types.ts)\<close>

text \<open>
  The wire messages and the presence entries of the hook \<^verbatim>\<open>useMultiTabDetection\<close>.
  Timestamps are integer milliseconds (\<^verbatim>\<open>Date.now()\<close>), so they are \<^typ>\<open>int\<close>.
  Tab ids and urls are strings; the order on tab ids is the lexicographic order of
  their characters, which is the order JavaScript's default \<^verbatim>\<open>sort()\<close> uses on the
  ASCII ids that \<^verbatim>\<open>generateTabId\<close> produces.
\<close>

datatype MessageType = Heartbeat | TabClosed | RequestActiveTabs | RequestLeader

record TabMessage =
  m_type :: MessageType
  m_tabId :: string
  m_timestamp :: int
  m_url :: "string option"

record TabInfo =
  tabId :: string
  lastHeartbeat :: int
  url :: string

text \<open>
  A JavaScript \<^verbatim>\<open>Map\<close> is an insertion-ordered table with unique keys: an association
  list whose keys are distinct. \<^verbatim>\<open>set\<close> overwrites in place or appends, \<^verbatim>\<open>delete\<close>
  removes the key, \<^verbatim>\<open>size\<close> is the number of entries, and \<^verbatim>\<open>new Map(entries)\<close>
  sets the entries one after the other into an empty table.
\<close>

type_synonym ('k, 'v) Map = "('k \<times> 'v) list"

abbreviation Map_set :: "'k \<Rightarrow> 'v \<Rightarrow> ('k, 'v) Map \<Rightarrow> ('k, 'v) Map" where
  "Map_set \<equiv> AList.update"

abbreviation Map_delete :: "'k \<Rightarrow> ('k, 'v) Map \<Rightarrow> ('k, 'v) Map" where
  "Map_delete \<equiv> AList.delete"

abbreviation Map_keys :: "('k, 'v) Map \<Rightarrow> 'k list" where
  "Map_keys m \<equiv> map fst m"

abbreviation Map_size :: "('k, 'v) Map \<Rightarrow> nat" where
  "Map_size m \<equiv> length m"

abbreviation Map_get :: "('k, 'v) Map \<Rightarrow> 'k \<Rightarrow> 'v option" where
  "Map_get m \<equiv> map_of m"

definition new_Map :: "('k \<times> 'v) list \<Rightarrow> ('k, 'v) Map" where
  "new_Map entries = foldl (\<lambda>m (k, v). Map_set k v m) [] entries"

section \<open>The hook's state and its environment\<close>

text \<open>
  The options that the modelled behaviour reads: the inactivity threshold and whether
  an \<^verbatim>\<open>onMultiTabChange\<close> callback was passed. The channel name, the heartbeat period
  and the debug flag only choose the channel, the timer periods and the console
  output, none of which is part of the state below.
\<close>

record config =
  inactivityThreshold :: int
  onMultiTabChange :: bool

text \<open>
  The browser side: a \<^verbatim>\<open>BroadcastChannel\<close> object is open or closed
  (\<^verbatim>\<open>postMessage\<close> on a closed one throws), and the timer table holds the pending
  \<^verbatim>\<open>setInterval\<close>/\<^verbatim>\<open>setTimeout\<close> tasks under their handles.
\<close>

datatype BroadcastChannel = ChannelOpen | ChannelClosed

datatype TimerTask = HeartbeatTask | CleanupTask | LeaderElectionTask

text \<open>
  One record holds the refs and the React state of the hook (named as in
  \<^verbatim>\<open>index.tsx\<close>), followed by what the hook does to its environment: the messages
  accepted by \<^verbatim>\<open>postMessage\<close>, the calls of \<^verbatim>\<open>onMultiTabChange\<close> with their
  arguments, the pending timers, the next fresh timer handle, and whether the
  \<^verbatim>\<open>beforeunload\<close> listener (and with it the effect's cleanup function) is installed.
\<close>

record state =
  tabIdRef :: string
  channelRef :: "BroadcastChannel option"
  activeTabsRef :: "(string, TabInfo) Map"
  heartbeatTimerRef :: "nat option"
  cleanupTimerRef :: "nat option"
  leaderElectionTimerRef :: "nat option"
  isSupported :: bool
  isMultiTab :: bool
  tabCount :: nat
  activeTabUrls :: "(string, string) Map"
  isLeaderRef :: bool
  prevIsMultiTabRef :: bool
  prevTabCountRef :: nat
  posted :: "TabMessage list"
  callbackCalls :: "(bool \<times> nat \<times> (string, string) Map) list"
  timers :: "(nat \<times> TimerTask) list"
  nextHandle :: nat
  unloadListener :: bool

text \<open>The values of the \<^verbatim>\<open>useRef\<close>/\<^verbatim>\<open>useState\<close> initialisers, for a generated tab id.\<close>

definition initialState :: "string \<Rightarrow> state" where
  "initialState tid =
     \<lparr> tabIdRef = tid, channelRef = None, activeTabsRef = [],
       heartbeatTimerRef = None, cleanupTimerRef = None, leaderElectionTimerRef = None,
       isSupported = False, isMultiTab = False, tabCount = 1, activeTabUrls = [],
       isLeaderRef = True, prevIsMultiTabRef = False, prevTabCountRef = 1,
       posted = [], callbackCalls = [], timers = [], nextHandle = 1,
       unloadListener = False \<rparr>"

subsection \<open>Timers of the browser\<close>

text \<open>
  \<^verbatim>\<open>setInterval\<close> and \<^verbatim>\<open>setTimeout\<close> return a fresh handle from one shared pool;
  \<^verbatim>\<open>clearInterval\<close> and \<^verbatim>\<open>clearTimeout\<close> drop the task with that handle, if any.
\<close>

definition setTimer :: "TimerTask \<Rightarrow> state \<Rightarrow> nat \<times> state" where
  "setTimer task s =
     (nextHandle s,
      s\<lparr>timers := timers s @ [(nextHandle s, task)], nextHandle := nextHandle s + 1\<rparr>)"

definition clearTimer :: "nat \<Rightarrow> state \<Rightarrow> state" where
  "clearTimer h s = s\<lparr>timers := filter (\<lambda>(h', task). h' \<noteq> h) (timers s)\<rparr>"

text \<open>\<^verbatim>\<open>if (ref.current) clear(ref.current)\<close>: a handle is truthy unless it is 0.\<close>

definition clearIfSet :: "nat option \<Rightarrow> state \<Rightarrow> state" where
  "clearIfSet r s = (case r of None \<Rightarrow> s | Some h \<Rightarrow> if h \<noteq> 0 then clearTimer h s else s)"

section \<open>The operations of index.tsx\<close>

subsection \<open>determineLeadership\<close>

text \<open>
  \<^verbatim>\<open>allTabIds\<close> after the push and the sort; the leader test compares its first
  element with the own id. The function stores the result in \<^verbatim>\<open>isLeaderRef\<close>.
\<close>

definition allTabIds :: "state \<Rightarrow> string list" where
  "allTabIds s = sort (Map_keys (activeTabsRef s) @ [tabIdRef s])"

definition determineLeadership :: "state \<Rightarrow> bool \<times> state" where
  "determineLeadership s =
     (let shouldBeLeader = (case allTabIds s of [] \<Rightarrow> False | x # _ \<Rightarrow> x = tabIdRef s)
      in (shouldBeLeader, s\<lparr>isLeaderRef := shouldBeLeader\<rparr>))"

subsection \<open>updateTabState\<close>

text \<open>
  The recomputation: keep the entries that are fresh at the clock reading \<open>now\<close>,
  rebuild the table, set the own entry, publish count, flag and url map, determine
  leadership, and call the callback when leader, registered and changed.
\<close>

definition updateTabState :: "config \<Rightarrow> int \<Rightarrow> string \<Rightarrow> state \<Rightarrow> state" where
  "updateTabState cfg now currentUrl s =
     (let activeTabs = filter (\<lambda>(k, info). now - lastHeartbeat info < inactivityThreshold cfg)
                         (activeTabsRef s);
          s1 = s\<lparr>activeTabsRef := new_Map activeTabs\<rparr>;
          s2 = s1\<lparr>activeTabsRef :=
                    Map_set (tabIdRef s1)
                      \<lparr>tabId = tabIdRef s1, lastHeartbeat = now, url = currentUrl\<rparr>
                      (activeTabsRef s1)\<rparr>;
          newTabCount = Map_size (activeTabsRef s2);
          newIsMultiTab = (newTabCount > 1);
          urlMap = new_Map (map (\<lambda>(k, info). (k, url info)) (activeTabsRef s2));
          s3 = s2\<lparr>tabCount := newTabCount, isMultiTab := newIsMultiTab,
                  activeTabUrls := urlMap\<rparr>;
          (isLeader, s4) = determineLeadership s3
      in if isLeader \<and> onMultiTabChange cfg \<and>
            (prevIsMultiTabRef s4 \<noteq> newIsMultiTab \<or> prevTabCountRef s4 \<noteq> newTabCount)
         then s4\<lparr>callbackCalls := callbackCalls s4 @ [(newIsMultiTab, newTabCount, urlMap)],
                 prevIsMultiTabRef := newIsMultiTab, prevTabCountRef := newTabCount\<rparr>
         else s4)"

subsection \<open>sendMessage\<close>

text \<open>
  Nothing happens without a channel; \<^verbatim>\<open>postMessage\<close> on a closed channel throws and
  the exception is caught and logged, so nothing is posted then either.
\<close>

definition sendMessage :: "int \<Rightarrow> string \<Rightarrow> MessageType \<Rightarrow> state \<Rightarrow> state" where
  "sendMessage now currentUrl ty s =
     (case channelRef s of
        None \<Rightarrow> s
      | Some ch \<Rightarrow>
          (let message = \<lparr>m_type = ty, m_tabId = tabIdRef s, m_timestamp = now,
                          m_url = Some currentUrl\<rparr>
           in case ch of
                ChannelOpen \<Rightarrow> s\<lparr>posted := posted s @ [message]\<rparr>
              | ChannelClosed \<Rightarrow> s))"

subsection \<open>handleMessage\<close>

text \<open>
  \<open>tSend\<close> is the clock reading of the reply's \<^verbatim>\<open>sendMessage\<close>, \<open>now\<close> the one of
  \<^verbatim>\<open>updateTabState\<close>. A missing or empty url is stored as the empty string.
\<close>

definition upsertSender :: "TabMessage \<Rightarrow> state \<Rightarrow> state" where
  "upsertSender message s =
     s\<lparr>activeTabsRef :=
         Map_set (m_tabId message)
           \<lparr>tabId = m_tabId message, lastHeartbeat = m_timestamp message,
            url = (case m_url message of None \<Rightarrow> [] | Some u \<Rightarrow> u)\<rparr>
           (activeTabsRef s)\<rparr>"

definition handleMessage ::
    "config \<Rightarrow> int \<Rightarrow> int \<Rightarrow> string \<Rightarrow> TabMessage \<Rightarrow> state \<Rightarrow> state" where
  "handleMessage cfg tSend now currentUrl message s =
     (if m_tabId message = tabIdRef s then s
      else case m_type message of
          Heartbeat \<Rightarrow> updateTabState cfg now currentUrl (upsertSender message s)
        | RequestActiveTabs \<Rightarrow>
            updateTabState cfg now currentUrl
              (sendMessage tSend currentUrl Heartbeat (upsertSender message s))
        | TabClosed \<Rightarrow>
            updateTabState cfg now currentUrl
              (s\<lparr>activeTabsRef := Map_delete (m_tabId message) (activeTabsRef s)\<rparr>)
        | RequestLeader \<Rightarrow>
            (let s1 = sendMessage tSend currentUrl Heartbeat s;
                 s2 = clearIfSet (leaderElectionTimerRef s1) s1;
                 (h, s3) = setTimer LeaderElectionTask s2
             in s3\<lparr>leaderElectionTimerRef := Some h\<rparr>))"

subsection \<open>cleanupInactiveTabs\<close>

text \<open>
  \<^verbatim>\<open>forEach\<close> visits every entry of the table once, in insertion order; an entry
  that is not the own one and is stale at \<open>now\<close> is deleted and sets \<^verbatim>\<open>hasChanges\<close>.
  The recomputation that follows reads the clock again (\<open>now'\<close>).
\<close>

definition sweepEntry ::
    "config \<Rightarrow> int \<Rightarrow> string \<Rightarrow> string \<times> TabInfo \<Rightarrow>
     (string, TabInfo) Map \<times> bool \<Rightarrow> (string, TabInfo) Map \<times> bool" where
  "sweepEntry cfg now self entry acc =
     (case entry of (k, info) \<Rightarrow>
        if k \<noteq> self \<and> now - lastHeartbeat info \<ge> inactivityThreshold cfg
        then (Map_delete k (fst acc), True)
        else acc)"

definition sweep :: "config \<Rightarrow> int \<Rightarrow> state \<Rightarrow> (string, TabInfo) Map \<times> bool" where
  "sweep cfg now s =
     fold (sweepEntry cfg now (tabIdRef s)) (activeTabsRef s) (activeTabsRef s, False)"

definition cleanupInactiveTabs :: "config \<Rightarrow> int \<Rightarrow> int \<Rightarrow> string \<Rightarrow> state \<Rightarrow> state" where
  "cleanupInactiveTabs cfg now now' currentUrl s =
     (case sweep cfg now s of (tbl, hasChanges) \<Rightarrow>
        if hasChanges then updateTabState cfg now' currentUrl (s\<lparr>activeTabsRef := tbl\<rparr>)
        else s\<lparr>activeTabsRef := tbl\<rparr>)"

subsection \<open>The effect: start and teardown\<close>

text \<open>
  \<open>supported\<close> is \<^verbatim>\<open>typeof BroadcastChannel !== 'undefined'\<close>; \<open>ctorThrows\<close> selects the
  \<^verbatim>\<open>catch\<close> branch around the channel's construction. \<open>t1\<close>, \<open>t2\<close> and \<open>t3\<close> are the
  clock readings of the two \<^verbatim>\<open>sendMessage\<close> calls and of \<^verbatim>\<open>updateTabState\<close>.
\<close>

definition mountEffect ::
    "config \<Rightarrow> bool \<Rightarrow> bool \<Rightarrow> int \<Rightarrow> int \<Rightarrow> int \<Rightarrow> string \<Rightarrow> state \<Rightarrow> state" where
  "mountEffect cfg supported ctorThrows t1 t2 t3 currentUrl s =
     (let s0 = s\<lparr>isSupported := supported\<rparr>
      in if \<not> supported then s0
         else if ctorThrows then s0\<lparr>isSupported := False\<rparr>
         else
           (let s1 = s0\<lparr>channelRef := Some ChannelOpen\<rparr>;
                s2 = sendMessage t1 currentUrl RequestActiveTabs s1;
                (h1, s3) = setTimer HeartbeatTask s2;
                s4 = s3\<lparr>heartbeatTimerRef := Some h1\<rparr>;
                (h2, s5) = setTimer CleanupTask s4;
                s6 = s5\<lparr>cleanupTimerRef := Some h2\<rparr>;
                s7 = sendMessage t2 currentUrl Heartbeat s6;
                s8 = updateTabState cfg t3 currentUrl s7
            in s8\<lparr>unloadListener := True\<rparr>))"

definition unmountEffect :: "int \<Rightarrow> string \<Rightarrow> state \<Rightarrow> state" where
  "unmountEffect now currentUrl s =
     (let s1 = sendMessage now currentUrl TabClosed s;
          s2 = clearIfSet (heartbeatTimerRef s1) s1;
          s3 = clearIfSet (cleanupTimerRef s2) s2;
          s4 = clearIfSet (leaderElectionTimerRef s3) s3;
          s5 = (case channelRef s4 of None \<Rightarrow> s4
                | Some ch \<Rightarrow> s4\<lparr>channelRef := Some ChannelClosed\<rparr>)
      in s5\<lparr>unloadListener := False\<rparr>)"

subsection \<open>Events\<close>

text \<open>
  What can happen to an instance, each with the clock readings and the location it
  observes. An event is enabled only when its source exists: a message is delivered
  while the listener sits on an open channel, a timer task runs while it is pending,
  the cleanup and the unload handler run while they are installed, and the effect
  runs when no cleanup of an earlier run is outstanding.
\<close>

datatype event =
    Mount bool int int int string
  | Unmount int string
  | Deliver TabMessage int int string
  | HeartbeatTick int string
  | CleanupTick int int string
  | LeaderElectionTimeout
  | BeforeUnload int string

definition pending :: "TimerTask \<Rightarrow> state \<Rightarrow> (nat \<times> TimerTask) list" where
  "pending task s = filter (\<lambda>(h, t). t = task) (timers s)"

fun step :: "config \<Rightarrow> bool \<Rightarrow> event \<Rightarrow> state \<Rightarrow> state option" where
  "step cfg supported (Mount ctorThrows t1 t2 t3 href) s =
     (if unloadListener s then None
      else Some (mountEffect cfg supported ctorThrows t1 t2 t3 href s))"
| "step cfg supported (Unmount now href) s =
     (if unloadListener s then Some (unmountEffect now href s) else None)"
| "step cfg supported (Deliver message tSend now href) s =
     (if channelRef s = Some ChannelOpen
      then Some (handleMessage cfg tSend now href message s) else None)"
| "step cfg supported (HeartbeatTick now href) s =
     (if pending HeartbeatTask s \<noteq> [] then Some (sendMessage now href Heartbeat s) else None)"
| "step cfg supported (CleanupTick now now' href) s =
     (if pending CleanupTask s \<noteq> []
      then Some (cleanupInactiveTabs cfg now now' href s) else None)"
| "step cfg supported LeaderElectionTimeout s =
     (case pending LeaderElectionTask s of
        [] \<Rightarrow> None
      | (h, t) # rest \<Rightarrow> Some (snd (determineLeadership (clearTimer h s))))"
| "step cfg supported (BeforeUnload now href) s =
     (if unloadListener s then Some (sendMessage now href TabClosed s) else None)"

fun run :: "config \<Rightarrow> bool \<Rightarrow> event list \<Rightarrow> state \<Rightarrow> state option" where
  "run cfg supported [] s = Some s"
| "run cfg supported (e # es) s =
     (case step cfg supported e s of None \<Rightarrow> None | Some s' \<Rightarrow> run cfg supported es s')"

section \<open>Properties of states and events\<close>


text \<open>
  Three properties that every state of a run has. The table is a proper \<^verbatim>\<open>Map\<close>, and
  once a recomputation has filled it, it holds the own id and the published count is
  its size. The last-notified pair is the pair of the latest callback call. At most one
  leader re-evaluation is pending, under the handle that \<^verbatim>\<open>leaderElectionTimerRef\<close> holds.
\<close>

definition tableInv :: "state \<Rightarrow> bool" where
  "tableInv s \<longleftrightarrow>
     distinct (Map_keys (activeTabsRef s)) \<and> 1 \<le> tabCount s \<and>
     isMultiTab s = (1 < tabCount s) \<and>
     (activeTabsRef s = [] \<or>
      tabIdRef s \<in> set (Map_keys (activeTabsRef s)) \<and> tabCount s = Map_size (activeTabsRef s))"

definition notifiedInv :: "state \<Rightarrow> bool" where
  "notifiedInv s \<longleftrightarrow>
     (prevIsMultiTabRef s, prevTabCountRef s) =
       (if callbackCalls s = [] then (False, 1)
        else (fst (last (callbackCalls s)), fst (snd (last (callbackCalls s)))))"


text \<open>Two states agree on the callback calls and on the last-notified pair.\<close>

definition sameNotified :: "state \<Rightarrow> state \<Rightarrow> bool" where
  "sameNotified s s' \<longleftrightarrow>
     callbackCalls s' = callbackCalls s \<and> prevIsMultiTabRef s' = prevIsMultiTabRef s \<and>
     prevTabCountRef s' = prevTabCountRef s"

section \<open>Leader election\<close>

text \<open>The first element of a sorted non-empty list is the least element of the list.\<close>

lemma hd_sort_Min:
  fixes xs :: "('a::linorder) list"
  assumes "xs \<noteq> []"
  shows "hd (sort xs) = Min (set xs)"
proof -
  from assms have ne: "sort xs \<noteq> []" by (metis length_0_conv length_sort)
  then obtain y ys where ys: "sort xs = y # ys" by (cases "sort xs") auto
  have "sorted (y # ys)" using sorted_sort [of xs] ys by simp
  then have le: "\<forall>z\<in>set (y # ys). y \<le> z" by auto
  have mem: "y \<in> set xs" using ys by (metis list.set_intros(1) set_sort)
  have "y \<le> z" if "z \<in> set xs" for z
  proof -
    from that have "z \<in> set (sort xs)" by simp
    then have "z \<in> set (y # ys)" unfolding ys .
    with le show ?thesis by blast
  qed
  with mem have "Min (set xs) = y" by (intro Min_eqI) auto
  then show ?thesis using ys by simp
qed

lemma allTabIds_hd:
  "hd (allTabIds s) = Min (insert (tabIdRef s) (set (Map_keys (activeTabsRef s))))"
  unfolding allTabIds_def by (subst hd_sort_Min) auto

lemma allTabIds_nonempty: "allTabIds s \<noteq> []"
  unfolding allTabIds_def by (metis length_0_conv length_sort snoc_eq_iff_butlast)

lemma determineLeadership_fst:
  "fst (determineLeadership s) = (hd (allTabIds s) = tabIdRef s)"
  using allTabIds_nonempty [of s]
  by (cases "allTabIds s") (simp_all add: determineLeadership_def Let_def)

lemma determineLeadership_snd:
  "snd (determineLeadership s) = s\<lparr>isLeaderRef := fst (determineLeadership s)\<rparr>"
  by (simp add: determineLeadership_def Let_def)

lemma determineLeadership_least:
  "fst (determineLeadership s) \<longleftrightarrow> (\<forall>k\<in>set (Map_keys (activeTabsRef s)). tabIdRef s \<le> k)"
proof -
  let ?A = "insert (tabIdRef s) (set (Map_keys (activeTabsRef s)))"
  have fin: "finite ?A" and ne: "?A \<noteq> {}" by simp_all
  have "Min ?A = tabIdRef s \<longleftrightarrow> (\<forall>k\<in>?A. tabIdRef s \<le> k)"
    using fin ne by (metis Min_eqI Min_le insertI1)
  then show ?thesis
    by (simp add: determineLeadership_fst allTabIds_hd)
qed

section \<open>The table as a Map\<close>

lemma Map_set_fresh:
  "k \<notin> fst ` set m \<Longrightarrow> Map_set k v m = m @ [(k, v)]"
  by (induction m) auto

lemma foldl_Map_set_distinct:
  "distinct (map fst (acc @ xs)) \<Longrightarrow>
   foldl (\<lambda>m (k, v). Map_set k v m) acc xs = acc @ xs"
proof (induction xs arbitrary: acc)
  case Nil
  then show ?case by simp
next
  case (Cons x xs)
  obtain k v where x: "x = (k, v)" by (cases x)
  from Cons.prems x have fresh: "k \<notin> fst ` set acc" by auto
  from Cons.prems x have "distinct (map fst ((acc @ [(k, v)]) @ xs))" by simp
  from Cons.IH [OF this] show ?case
    using x fresh by (simp add: Map_set_fresh)
qed

lemma new_Map_distinct_id:
  "distinct (Map_keys xs) \<Longrightarrow> new_Map xs = xs"
  using foldl_Map_set_distinct [of "[]" xs] by (simp add: new_Map_def)

lemma foldl_Map_set_keys_distinct:
  "distinct (Map_keys acc) \<Longrightarrow>
   distinct (Map_keys (foldl (\<lambda>m (k, v). Map_set k v m) acc xs))"
  by (induction xs arbitrary: acc) (auto simp: distinct_update)

lemma distinct_new_Map: "distinct (Map_keys (new_Map xs))"
  using foldl_Map_set_keys_distinct [of "[]" xs] by (simp add: new_Map_def)

lemma distinct_keys_filter:
  "distinct (Map_keys xs) \<Longrightarrow> distinct (Map_keys (filter P xs))"
  by (induction xs) auto

lemma Map_get_filter:
  "distinct (Map_keys xs) \<Longrightarrow>
   Map_get (filter (\<lambda>(k, v). P v) xs) k =
     (case Map_get xs k of None \<Rightarrow> None | Some v \<Rightarrow> if P v then Some v else None)"
proof (induction xs)
  case Nil
  then show ?case by simp
next
  case (Cons x xs)
  obtain k' v' where x: "x = (k', v')" by (cases x)
  show ?case
  proof (cases "k' = k")
    case True
    with Cons.prems x have "k \<notin> fst ` set xs" by auto
    then have "Map_get xs k = None" by (simp add: map_of_eq_None_iff)
    moreover have "Map_get (filter (\<lambda>(k, v). P v) xs) k = None"
      using \<open>k \<notin> fst ` set xs\<close> by (auto simp: map_of_eq_None_iff)
    ultimately show ?thesis using True x by simp
  next
    case False
    with Cons x show ?thesis by simp
  qed
qed

section \<open>What each operation writes\<close>

lemma determineLeadership_cong:
  "activeTabsRef s = activeTabsRef s' \<Longrightarrow> tabIdRef s = tabIdRef s' \<Longrightarrow>
   fst (determineLeadership s) = fst (determineLeadership s')"
  by (simp add: determineLeadership_fst allTabIds_def)

lemmas uts_unfold = updateTabState_def Let_def case_prod_beta determineLeadership_snd

lemma updateTabState_table:
  "activeTabsRef (updateTabState cfg now u s) =
     Map_set (tabIdRef s) \<lparr>tabId = tabIdRef s, lastHeartbeat = now, url = u\<rparr>
       (new_Map (filter (\<lambda>(k, info). now - lastHeartbeat info < inactivityThreshold cfg)
          (activeTabsRef s)))"
  by (simp add: uts_unfold split: prod.splits)

lemma updateTabState_frame:
  "tabIdRef (updateTabState cfg now u s) = tabIdRef s"
  "channelRef (updateTabState cfg now u s) = channelRef s"
  "heartbeatTimerRef (updateTabState cfg now u s) = heartbeatTimerRef s"
  "cleanupTimerRef (updateTabState cfg now u s) = cleanupTimerRef s"
  "leaderElectionTimerRef (updateTabState cfg now u s) = leaderElectionTimerRef s"
  "isSupported (updateTabState cfg now u s) = isSupported s"
  "posted (updateTabState cfg now u s) = posted s"
  "timers (updateTabState cfg now u s) = timers s"
  "nextHandle (updateTabState cfg now u s) = nextHandle s"
  "unloadListener (updateTabState cfg now u s) = unloadListener s"
  by (simp_all add: uts_unfold split: prod.splits)

lemma updateTabState_count:
  "tabCount (updateTabState cfg now u s) = Map_size (activeTabsRef (updateTabState cfg now u s))"
  "isMultiTab (updateTabState cfg now u s) = (1 < tabCount (updateTabState cfg now u s))"
  "activeTabUrls (updateTabState cfg now u s) =
     new_Map (map (\<lambda>(k, info). (k, url info)) (activeTabsRef (updateTabState cfg now u s)))"
  by (simp_all add: uts_unfold split: prod.splits)

lemma updateTabState_leader:
  "isLeaderRef (updateTabState cfg now u s) = fst (determineLeadership (updateTabState cfg now u s))"
proof -
  let ?T = "Map_set (tabIdRef s) \<lparr>tabId = tabIdRef s, lastHeartbeat = now, url = u\<rparr>
       (new_Map (filter (\<lambda>(k, info). now - lastHeartbeat info < inactivityThreshold cfg)
          (activeTabsRef s)))"
  let ?b = "s\<lparr>activeTabsRef := ?T, tabCount := Map_size ?T, isMultiTab := (1 < Map_size ?T),
              activeTabUrls := new_Map (map (\<lambda>(k, info). (k, url info)) ?T)\<rparr>"
  have "fst (determineLeadership (updateTabState cfg now u s)) = fst (determineLeadership ?b)"
    by (rule determineLeadership_cong) (simp_all add: updateTabState_table updateTabState_frame)
  moreover have "isLeaderRef (updateTabState cfg now u s) = fst (determineLeadership ?b)"
    by (simp add: uts_unfold)
  ultimately show ?thesis by simp
qed

lemma updateTabState_calls:
  "callbackCalls (updateTabState cfg now u s) =
     (if isLeaderRef (updateTabState cfg now u s) \<and> onMultiTabChange cfg \<and>
         (prevIsMultiTabRef s \<noteq> isMultiTab (updateTabState cfg now u s) \<or>
          prevTabCountRef s \<noteq> tabCount (updateTabState cfg now u s))
      then callbackCalls s @
             [(isMultiTab (updateTabState cfg now u s), tabCount (updateTabState cfg now u s),
               activeTabUrls (updateTabState cfg now u s))]
      else callbackCalls s)"
  by (simp add: uts_unfold split: prod.splits)

lemma updateTabState_prev:
  "(prevIsMultiTabRef (updateTabState cfg now u s), prevTabCountRef (updateTabState cfg now u s)) =
     (if isLeaderRef (updateTabState cfg now u s) \<and> onMultiTabChange cfg \<and>
         (prevIsMultiTabRef s \<noteq> isMultiTab (updateTabState cfg now u s) \<or>
          prevTabCountRef s \<noteq> tabCount (updateTabState cfg now u s))
      then (isMultiTab (updateTabState cfg now u s), tabCount (updateTabState cfg now u s))
      else (prevIsMultiTabRef s, prevTabCountRef s))"
  by (simp add: uts_unfold split: prod.splits)

lemma sendMessage_frame:
  "tabIdRef (sendMessage now u ty s) = tabIdRef s"
  "channelRef (sendMessage now u ty s) = channelRef s"
  "activeTabsRef (sendMessage now u ty s) = activeTabsRef s"
  "heartbeatTimerRef (sendMessage now u ty s) = heartbeatTimerRef s"
  "cleanupTimerRef (sendMessage now u ty s) = cleanupTimerRef s"
  "leaderElectionTimerRef (sendMessage now u ty s) = leaderElectionTimerRef s"
  "isSupported (sendMessage now u ty s) = isSupported s"
  "isMultiTab (sendMessage now u ty s) = isMultiTab s"
  "tabCount (sendMessage now u ty s) = tabCount s"
  "activeTabUrls (sendMessage now u ty s) = activeTabUrls s"
  "isLeaderRef (sendMessage now u ty s) = isLeaderRef s"
  "prevIsMultiTabRef (sendMessage now u ty s) = prevIsMultiTabRef s"
  "prevTabCountRef (sendMessage now u ty s) = prevTabCountRef s"
  "callbackCalls (sendMessage now u ty s) = callbackCalls s"
  "timers (sendMessage now u ty s) = timers s"
  "nextHandle (sendMessage now u ty s) = nextHandle s"
  "unloadListener (sendMessage now u ty s) = unloadListener s"
  by (simp_all add: sendMessage_def Let_def split: option.splits BroadcastChannel.splits)

lemma sendMessage_posted:
  "posted (sendMessage now u ty s) =
     (if channelRef s = Some ChannelOpen
      then posted s @ [\<lparr>m_type = ty, m_tabId = tabIdRef s, m_timestamp = now, m_url = Some u\<rparr>]
      else posted s)"
  by (simp add: sendMessage_def Let_def split: option.splits BroadcastChannel.splits)

lemma sendMessage_eq:
  "sendMessage now u ty s = s\<lparr>posted := posted (sendMessage now u ty s)\<rparr>"
  by (simp add: sendMessage_def Let_def split: option.splits BroadcastChannel.splits)

lemma clearIfSet_eq:
  "clearIfSet r s = s\<lparr>timers := timers (clearIfSet r s)\<rparr>"
  by (simp add: clearIfSet_def clearTimer_def split: option.splits)

lemma clearIfSet_timers_subset:
  "set (timers (clearIfSet r s)) \<subseteq> set (timers s)"
  by (auto simp: clearIfSet_def clearTimer_def split: option.splits)

lemma clearIfSet_frame:
  "tabIdRef (clearIfSet r s) = tabIdRef s"
  "channelRef (clearIfSet r s) = channelRef s"
  "activeTabsRef (clearIfSet r s) = activeTabsRef s"
  "heartbeatTimerRef (clearIfSet r s) = heartbeatTimerRef s"
  "cleanupTimerRef (clearIfSet r s) = cleanupTimerRef s"
  "leaderElectionTimerRef (clearIfSet r s) = leaderElectionTimerRef s"
  "isSupported (clearIfSet r s) = isSupported s"
  "isMultiTab (clearIfSet r s) = isMultiTab s"
  "tabCount (clearIfSet r s) = tabCount s"
  "activeTabUrls (clearIfSet r s) = activeTabUrls s"
  "isLeaderRef (clearIfSet r s) = isLeaderRef s"
  "prevIsMultiTabRef (clearIfSet r s) = prevIsMultiTabRef s"
  "prevTabCountRef (clearIfSet r s) = prevTabCountRef s"
  "posted (clearIfSet r s) = posted s"
  "callbackCalls (clearIfSet r s) = callbackCalls s"
  "nextHandle (clearIfSet r s) = nextHandle s"
  "unloadListener (clearIfSet r s) = unloadListener s"
  by (simp_all add: clearIfSet_def clearTimer_def split: option.splits)

lemma clearIfSet_sendMessage_timers:
  "timers (clearIfSet r (sendMessage t u ty s)) = timers (clearIfSet r s)"
  by (simp add: clearIfSet_def clearTimer_def sendMessage_frame split: option.splits)

lemma step_unsupported:
  "step cfg False e (initialState tid) = Some s' \<Longrightarrow> s' = initialState tid"
  by (cases e) (auto simp: initialState_def mountEffect_def pending_def split: if_splits)

lemma run_unsupported:
  "run cfg False es (initialState tid) = Some s \<Longrightarrow> s = initialState tid"
proof (induction es)
  case Nil
  then show ?case by simp
next
  case (Cons e es)
  then obtain s' where s': "step cfg False e (initialState tid) = Some s'"
    and r: "run cfg False es s' = Some s"
    by (auto split: option.splits)
  from step_unsupported [OF s'] r Cons.IH show ?case by simp
qed

section \<open>The sweep of the reaper\<close>

lemma sweep_fold:
  "fold (sweepEntry cfg now self) xs (t, b) =
     (filter (\<lambda>(k, i). \<not> (\<exists>j. (k, j) \<in> set xs \<and> k \<noteq> self \<and>
                               inactivityThreshold cfg \<le> now - lastHeartbeat j)) t,
      b \<or> (\<exists>(k, j)\<in>set xs. k \<noteq> self \<and> inactivityThreshold cfg \<le> now - lastHeartbeat j))"
proof (induction xs arbitrary: t b)
  case Nil
  then show ?case by simp
next
  case (Cons x xs)
  obtain k i where x: "x = (k, i)" by (cases x)
  show ?case
  proof (cases "k \<noteq> self \<and> inactivityThreshold cfg \<le> now - lastHeartbeat i")
    case True
    then have "sweepEntry cfg now self x (t, b) = (Map_delete k t, True)"
      by (simp add: sweepEntry_def x)
    then show ?thesis
      using True x by (auto simp: Cons.IH AList.delete_eq intro!: filter_cong)
  next
    case False
    then have "sweepEntry cfg now self x (t, b) = (t, b)"
      by (auto simp: sweepEntry_def x)
    then show ?thesis
      using False x by (auto simp: Cons.IH intro!: filter_cong)
  qed
qed

lemma sweep_distinct:
  assumes "distinct (Map_keys (activeTabsRef s))"
  shows "sweep cfg now s =
     (filter (\<lambda>(k, i). \<not> (k \<noteq> tabIdRef s \<and> inactivityThreshold cfg \<le> now - lastHeartbeat i))
        (activeTabsRef s),
      \<exists>(k, i)\<in>set (activeTabsRef s).
         k \<noteq> tabIdRef s \<and> inactivityThreshold cfg \<le> now - lastHeartbeat i)"
proof -
  have "j = i" if "(k, j) \<in> set (activeTabsRef s)" "(k, i) \<in> set (activeTabsRef s)" for k i j
    using assms that by (rule eq_key_imp_eq_value)
  then have "filter (\<lambda>(k, i). \<not> (\<exists>j. (k, j) \<in> set (activeTabsRef s) \<and> k \<noteq> tabIdRef s \<and>
                               inactivityThreshold cfg \<le> now - lastHeartbeat j)) (activeTabsRef s) =
        filter (\<lambda>(k, i). \<not> (k \<noteq> tabIdRef s \<and> inactivityThreshold cfg \<le> now - lastHeartbeat i))
        (activeTabsRef s)"
    by (intro filter_cong) auto
  then show ?thesis
    by (simp add: sweep_def sweep_fold)
qed

lemma sweep_no_change:
  "\<not> snd (sweep cfg now s) \<Longrightarrow> fst (sweep cfg now s) = activeTabsRef s"
  by (auto simp: sweep_def sweep_fold intro!: filter_True)

section \<open>Invariants of runs\<close>

lemma run_invariant:
  assumes stepI: "\<And>e s s'. I s \<Longrightarrow> step cfg supp e s = Some s' \<Longrightarrow> I s'"
  shows "I s \<Longrightarrow> run cfg supp es s = Some s' \<Longrightarrow> I s'"
proof (induction es arbitrary: s)
  case Nil
  then show ?case by simp
next
  case (Cons e es)
  from Cons.prems(2) obtain s1 where s1: "step cfg supp e s = Some s1"
    and r: "run cfg supp es s1 = Some s'"
    by (auto split: option.splits)
  from stepI [OF Cons.prems(1) s1] have "I s1" .
  from Cons.IH [OF this r] show ?case .
qed

lemma updateTabState_self_in:
  "tabIdRef s \<in> set (Map_keys (activeTabsRef (updateTabState cfg now u s)))"
  using dom_update [of "tabIdRef s" _ "new_Map (filter (\<lambda>(k, info). now - lastHeartbeat info < inactivityThreshold cfg) (activeTabsRef s))"]
  by (simp add: updateTabState_table)

lemma updateTabState_distinct:
  "distinct (Map_keys (activeTabsRef (updateTabState cfg now u s)))"
  by (simp add: updateTabState_table distinct_update distinct_new_Map)

lemma updateTabState_tableInv: "tableInv (updateTabState cfg now u s)"
proof -
  let ?s' = "updateTabState cfg now u s"
  have "activeTabsRef ?s' \<noteq> []" by (simp add: updateTabState_table)
  then have "1 \<le> Map_size (activeTabsRef ?s')" by (cases "activeTabsRef ?s'") simp_all
  then show ?thesis
    unfolding tableInv_def
    using updateTabState_self_in [of s cfg now u] updateTabState_distinct [of cfg now u s]
    by (simp add: updateTabState_count updateTabState_frame)
qed

lemma tableInv_frame:
  "activeTabsRef s' = activeTabsRef s \<Longrightarrow> tabIdRef s' = tabIdRef s \<Longrightarrow>
   tabCount s' = tabCount s \<Longrightarrow> isMultiTab s' = isMultiTab s \<Longrightarrow> tableInv s \<Longrightarrow> tableInv s'"
  by (simp add: tableInv_def)

lemma cleanupInactiveTabs_cases:
  "cleanupInactiveTabs cfg now now' u s = s \<or>
   (\<exists>t. cleanupInactiveTabs cfg now now' u s = updateTabState cfg now' u (s\<lparr>activeTabsRef := t\<rparr>))"
proof (cases "snd (sweep cfg now s)")
  case True
  then show ?thesis by (auto simp: cleanupInactiveTabs_def split: prod.splits)
next
  case False
  with sweep_no_change [OF False] show ?thesis
    by (auto simp: cleanupInactiveTabs_def split: prod.splits)
qed

lemma handleMessage_cases:
  "m_type m \<noteq> RequestLeader \<Longrightarrow>
   handleMessage cfg tSend now u m s = s \<or>
   (\<exists>x. handleMessage cfg tSend now u m s = updateTabState cfg now u x \<and>
        tabIdRef x = tabIdRef s \<and> timers x = timers s \<and> nextHandle x = nextHandle s \<and>
        leaderElectionTimerRef x = leaderElectionTimerRef s \<and>
        callbackCalls x = callbackCalls s \<and> prevIsMultiTabRef x = prevIsMultiTabRef s \<and>
        prevTabCountRef x = prevTabCountRef s)"
  by (cases "m_type m")
     (auto simp: handleMessage_def upsertSender_def sendMessage_frame)

lemma mountEffect_cases:
  "mountEffect cfg supp c t1 t2 t3 u s = s\<lparr>isSupported := supp \<and> \<not> c\<rparr> \<or>
   (\<exists>x. mountEffect cfg supp c t1 t2 t3 u s = (updateTabState cfg t3 u x)\<lparr>unloadListener := True\<rparr> \<and>
        tabIdRef x = tabIdRef s \<and>
        timers x = timers s @ [(nextHandle s, HeartbeatTask), (Suc (nextHandle s), CleanupTask)] \<and>
        nextHandle x = nextHandle s + 2 \<and>
        leaderElectionTimerRef x = leaderElectionTimerRef s \<and>
        callbackCalls x = callbackCalls s \<and> prevIsMultiTabRef x = prevIsMultiTabRef s \<and>
        prevTabCountRef x = prevTabCountRef s)"
  by (auto simp: mountEffect_def Let_def setTimer_def sendMessage_frame)

lemma unmountEffect_frame:
  "activeTabsRef (unmountEffect t u s) = activeTabsRef s"
  "tabIdRef (unmountEffect t u s) = tabIdRef s"
  "tabCount (unmountEffect t u s) = tabCount s"
  "isMultiTab (unmountEffect t u s) = isMultiTab s"
  "callbackCalls (unmountEffect t u s) = callbackCalls s"
  "prevIsMultiTabRef (unmountEffect t u s) = prevIsMultiTabRef s"
  "prevTabCountRef (unmountEffect t u s) = prevTabCountRef s"
  "nextHandle (unmountEffect t u s) = nextHandle s"
  "leaderElectionTimerRef (unmountEffect t u s) = leaderElectionTimerRef s"
  by (simp_all add: unmountEffect_def Let_def clearIfSet_frame sendMessage_frame
        split: option.splits)

lemma unmountEffect_timers:
  "set (timers (unmountEffect t u s)) \<subseteq> set (timers s)"
proof -
  let ?s1 = "sendMessage t u TabClosed s"
  let ?s2 = "clearIfSet (heartbeatTimerRef ?s1) ?s1"
  let ?s3 = "clearIfSet (cleanupTimerRef ?s2) ?s2"
  let ?s4 = "clearIfSet (leaderElectionTimerRef ?s3) ?s3"
  have "timers (unmountEffect t u s) = timers ?s4"
    by (simp add: unmountEffect_def Let_def split: option.splits)
  moreover have "set (timers ?s4) \<subseteq> set (timers ?s3)" by (rule clearIfSet_timers_subset)
  moreover have "set (timers ?s3) \<subseteq> set (timers ?s2)" by (rule clearIfSet_timers_subset)
  moreover have "set (timers ?s2) \<subseteq> set (timers ?s1)" by (rule clearIfSet_timers_subset)
  moreover have "timers ?s1 = timers s" by (simp add: sendMessage_frame)
  ultimately show ?thesis by simp
qed

lemma handleMessage_self:
  "m_tabId m = tabIdRef s \<Longrightarrow> handleMessage cfg tSend now u m s = s"
  by (simp add: handleMessage_def)

lemma handleMessage_RequestLeader_eq:
  "m_type m = RequestLeader \<Longrightarrow> m_tabId m \<noteq> tabIdRef s \<Longrightarrow>
   handleMessage cfg tSend now u m s =
     s\<lparr>posted := posted (sendMessage tSend u Heartbeat s),
       timers := timers (clearIfSet (leaderElectionTimerRef s) s) @
                   [(nextHandle s, LeaderElectionTask)],
       nextHandle := nextHandle s + 1,
       leaderElectionTimerRef := Some (nextHandle s)\<rparr>"
  by (rule state.equality)
     (simp_all add: handleMessage_def Let_def setTimer_def clearIfSet_frame sendMessage_frame
        clearIfSet_sendMessage_timers)

lemma timeout_eq:
  "snd (determineLeadership (clearTimer h s)) =
     s\<lparr>timers := filter (\<lambda>(h', task). h' \<noteq> h) (timers s),
       isLeaderRef := fst (determineLeadership s)\<rparr>"
proof -
  have "fst (determineLeadership (clearTimer h s)) = fst (determineLeadership s)"
    by (rule determineLeadership_cong) (simp_all add: clearTimer_def)
  then show ?thesis
    by (simp add: determineLeadership_snd clearTimer_def)
qed

lemma step_tableInv:
  assumes "tableInv s" "step cfg supp e s = Some s'"
  shows "tableInv s'"
proof (cases e)
  case (Mount c t1 t2 t3 u)
  with assms(2) have s': "s' = mountEffect cfg supp c t1 t2 t3 u s"
    by (simp split: if_splits)
  from mountEffect_cases [of cfg supp c t1 t2 t3 u s] show ?thesis
  proof
    assume "mountEffect cfg supp c t1 t2 t3 u s = s\<lparr>isSupported := supp \<and> \<not> c\<rparr>"
    with s' assms(1) show ?thesis by (simp add: tableInv_def)
  next
    assume "\<exists>x. mountEffect cfg supp c t1 t2 t3 u s =
        (updateTabState cfg t3 u x)\<lparr>unloadListener := True\<rparr> \<and>
        tabIdRef x = tabIdRef s \<and>
        timers x = timers s @ [(nextHandle s, HeartbeatTask), (Suc (nextHandle s), CleanupTask)] \<and>
        nextHandle x = nextHandle s + 2 \<and>
        leaderElectionTimerRef x = leaderElectionTimerRef s \<and>
        callbackCalls x = callbackCalls s \<and> prevIsMultiTabRef x = prevIsMultiTabRef s \<and>
        prevTabCountRef x = prevTabCountRef s"
    then obtain x where "s' = (updateTabState cfg t3 u x)\<lparr>unloadListener := True\<rparr>"
      using s' by auto
    then show ?thesis
      using updateTabState_tableInv [of cfg t3 u x] by (simp add: tableInv_def)
  qed
next
  case (Unmount t u)
  with assms(2) have "s' = unmountEffect t u s" by (simp split: if_splits)
  with assms(1) show ?thesis
    by (intro tableInv_frame [of s' s]) (simp_all add: unmountEffect_frame)
next
  case (Deliver m tSend now u)
  with assms(2) have s': "s' = handleMessage cfg tSend now u m s" by (simp split: if_splits)
  show ?thesis
  proof (cases "m_type m = RequestLeader")
    case True
    show ?thesis
    proof (cases "m_tabId m = tabIdRef s")
      case True
      with s' assms(1) show ?thesis by (simp add: handleMessage_self)
    next
      case False
      with s' assms(1) True show ?thesis
        by (simp add: handleMessage_RequestLeader_eq tableInv_def)
    qed
  next
    case False
    from handleMessage_cases [OF False, of cfg tSend now u s] s' assms(1) show ?thesis
      by (auto simp: updateTabState_tableInv)
  qed
next
  case (HeartbeatTick t u)
  with assms(2) have "s' = sendMessage t u Heartbeat s" by (simp split: if_splits)
  with assms(1) show ?thesis
    by (intro tableInv_frame [of s' s]) (simp_all add: sendMessage_frame)
next
  case (CleanupTick now now' u)
  with assms(2) have "s' = cleanupInactiveTabs cfg now now' u s" by (simp split: if_splits)
  with cleanupInactiveTabs_cases [of cfg now now' u s] assms(1) show ?thesis
    by (auto simp: updateTabState_tableInv)
next
  case LeaderElectionTimeout
  with assms(2) obtain h where "s' = snd (determineLeadership (clearTimer h s))"
    by (auto split: list.splits)
  with assms(1) show ?thesis by (simp add: timeout_eq tableInv_def)
next
  case (BeforeUnload t u)
  with assms(2) have "s' = sendMessage t u TabClosed s" by (simp split: if_splits)
  with assms(1) show ?thesis
    by (intro tableInv_frame [of s' s]) (simp_all add: sendMessage_frame)
qed

lemma step_tabIdRef:
  assumes "step cfg supp e s = Some s'"
  shows "tabIdRef s' = tabIdRef s"
proof (cases e)
  case (Mount c t1 t2 t3 u)
  with assms have s': "s' = mountEffect cfg supp c t1 t2 t3 u s"
    by (simp split: if_splits)
  from mountEffect_cases [of cfg supp c t1 t2 t3 u s] s' show ?thesis
    by (auto simp: updateTabState_frame)
next
  case (Unmount t u)
  with assms show ?thesis by (auto simp: unmountEffect_frame split: if_splits)
next
  case (Deliver m tSend now u)
  with assms have s': "s' = handleMessage cfg tSend now u m s" by (simp split: if_splits)
  show ?thesis
  proof (cases "m_type m = RequestLeader")
    case True
    then show ?thesis using s'
      by (cases "m_tabId m = tabIdRef s")
         (simp_all add: handleMessage_self handleMessage_RequestLeader_eq)
  next
    case False
    from handleMessage_cases [OF False, of cfg tSend now u s] s' show ?thesis
      by (auto simp: updateTabState_frame)
  qed
next
  case (HeartbeatTick t u)
  with assms show ?thesis by (auto simp: sendMessage_frame split: if_splits)
next
  case (CleanupTick now now' u)
  with assms have "s' = cleanupInactiveTabs cfg now now' u s" by (simp split: if_splits)
  with cleanupInactiveTabs_cases [of cfg now now' u s] show ?thesis
    by (auto simp: updateTabState_frame)
next
  case LeaderElectionTimeout
  with assms obtain h where "s' = snd (determineLeadership (clearTimer h s))"
    by (auto split: list.splits)
  then show ?thesis by (simp add: timeout_eq)
next
  case (BeforeUnload t u)
  with assms show ?thesis by (auto simp: sendMessage_frame split: if_splits)
qed

lemma initialState_tableInv: "tableInv (initialState tid)"
  by (simp add: tableInv_def initialState_def)

lemma run_tableInv:
  assumes "run cfg supp es (initialState tid) = Some s"
  shows "tableInv s"
  using step_tableInv initialState_tableInv assms by (rule run_invariant)

lemma run_tabIdRef:
  "run cfg supp es (initialState tid) = Some s \<Longrightarrow> tabIdRef s = tid"
proof -
  assume r: "run cfg supp es (initialState tid) = Some s"
  have "tabIdRef (initialState tid) = tid" by (simp add: initialState_def)
  with run_invariant [where I = "\<lambda>s. tabIdRef s = tid" and s = "initialState tid", OF _ _ r]
  show ?thesis by (simp add: step_tabIdRef)
qed

subsection \<open>The last-notified pair\<close>

lemma updateTabState_quiet:
  assumes "callbackCalls (updateTabState cfg now u x) = callbackCalls x"
  shows "prevIsMultiTabRef (updateTabState cfg now u x) = prevIsMultiTabRef x \<and>
         prevTabCountRef (updateTabState cfg now u x) = prevTabCountRef x"
proof -
  let ?s' = "updateTabState cfg now u x"
  let ?fire = "isLeaderRef ?s' \<and> onMultiTabChange cfg \<and>
         (prevIsMultiTabRef x \<noteq> isMultiTab ?s' \<or> prevTabCountRef x \<noteq> tabCount ?s')"
  have "\<not> ?fire"
  proof
    assume ?fire
    then have "callbackCalls ?s' = callbackCalls x @ [(isMultiTab ?s', tabCount ?s', activeTabUrls ?s')]"
      by (subst updateTabState_calls) simp
    with assms show False by simp
  qed
  then have "(prevIsMultiTabRef ?s', prevTabCountRef ?s') = (prevIsMultiTabRef x, prevTabCountRef x)"
    by (subst updateTabState_prev) simp
  then show ?thesis by simp
qed

lemma updateTabState_notifiedInv:
  assumes "notifiedInv x"
  shows "notifiedInv (updateTabState cfg now u x)"
proof -
  let ?s' = "updateTabState cfg now u x"
  let ?fire = "isLeaderRef ?s' \<and> onMultiTabChange cfg \<and>
         (prevIsMultiTabRef x \<noteq> isMultiTab ?s' \<or> prevTabCountRef x \<noteq> tabCount ?s')"
  show ?thesis
  proof (cases ?fire)
    case True
    then have c: "callbackCalls ?s' = callbackCalls x @ [(isMultiTab ?s', tabCount ?s', activeTabUrls ?s')]"
      by (subst updateTabState_calls) simp
    from True have "(prevIsMultiTabRef ?s', prevTabCountRef ?s') = (isMultiTab ?s', tabCount ?s')"
      by (subst updateTabState_prev) simp
    with c show ?thesis unfolding notifiedInv_def by simp
  next
    case False
    then have c: "callbackCalls ?s' = callbackCalls x"
      by (subst updateTabState_calls) simp
    from False have "(prevIsMultiTabRef ?s', prevTabCountRef ?s') = (prevIsMultiTabRef x, prevTabCountRef x)"
      by (subst updateTabState_prev) simp
    with c assms show ?thesis unfolding notifiedInv_def by simp
  qed
qed

lemma step_shape:
  assumes "step cfg supp e s = Some s'"
  shows "sameNotified s s' \<or>
         (\<exists>x now u. sameNotified (updateTabState cfg now u x) s' \<and> sameNotified s x)"
proof (cases e)
  case (Mount c t1 t2 t3 u)
  with assms have s': "s' = mountEffect cfg supp c t1 t2 t3 u s"
    by (simp split: if_splits)
  from mountEffect_cases [of cfg supp c t1 t2 t3 u s] show ?thesis
  proof (elim disjE exE conjE)
    assume "mountEffect cfg supp c t1 t2 t3 u s = s\<lparr>isSupported := supp \<and> \<not> c\<rparr>"
    with s' show ?thesis by (simp add: sameNotified_def)
  next
    fix x
    assume "mountEffect cfg supp c t1 t2 t3 u s = (updateTabState cfg t3 u x)\<lparr>unloadListener := True\<rparr>"
      "callbackCalls x = callbackCalls s" "prevIsMultiTabRef x = prevIsMultiTabRef s"
      "prevTabCountRef x = prevTabCountRef s"
    with s' have "sameNotified (updateTabState cfg t3 u x) s' \<and> sameNotified s x"
      by (simp add: sameNotified_def)
    then show ?thesis by blast
  qed
next
  case (Unmount t u)
  with assms show ?thesis
    by (auto simp: sameNotified_def unmountEffect_frame split: if_splits)
next
  case (Deliver m tSend now u)
  with assms have s': "s' = handleMessage cfg tSend now u m s" by (simp split: if_splits)
  show ?thesis
  proof (cases "m_type m = RequestLeader")
    case True
    then show ?thesis using s'
      by (cases "m_tabId m = tabIdRef s")
         (simp_all add: sameNotified_def handleMessage_self handleMessage_RequestLeader_eq)
  next
    case False
    from handleMessage_cases [OF False, of cfg tSend now u s] show ?thesis
    proof (elim disjE exE conjE)
      assume "handleMessage cfg tSend now u m s = s"
      with s' show ?thesis by (simp add: sameNotified_def)
    next
      fix x
      assume "handleMessage cfg tSend now u m s = updateTabState cfg now u x"
        "callbackCalls x = callbackCalls s" "prevIsMultiTabRef x = prevIsMultiTabRef s"
        "prevTabCountRef x = prevTabCountRef s"
      with s' have "sameNotified (updateTabState cfg now u x) s' \<and> sameNotified s x"
        by (simp add: sameNotified_def)
      then show ?thesis by blast
    qed
  qed
next
  case (HeartbeatTick t u)
  with assms show ?thesis
    by (auto simp: sameNotified_def sendMessage_frame split: if_splits)
next
  case (CleanupTick now now' u)
  with assms have s': "s' = cleanupInactiveTabs cfg now now' u s" by (simp split: if_splits)
  from cleanupInactiveTabs_cases [of cfg now now' u s] show ?thesis
  proof (elim disjE exE)
    assume "cleanupInactiveTabs cfg now now' u s = s"
    with s' show ?thesis by (simp add: sameNotified_def)
  next
    fix t
    assume "cleanupInactiveTabs cfg now now' u s = updateTabState cfg now' u (s\<lparr>activeTabsRef := t\<rparr>)"
    with s' have "sameNotified (updateTabState cfg now' u (s\<lparr>activeTabsRef := t\<rparr>)) s' \<and>
        sameNotified s (s\<lparr>activeTabsRef := t\<rparr>)"
      by (simp add: sameNotified_def)
    then show ?thesis by blast
  qed
next
  case LeaderElectionTimeout
  with assms obtain h where "s' = snd (determineLeadership (clearTimer h s))"
    by (auto split: list.splits)
  then show ?thesis by (simp add: timeout_eq sameNotified_def)
next
  case (BeforeUnload t u)
  with assms show ?thesis
    by (auto simp: sameNotified_def sendMessage_frame split: if_splits)
qed

lemma notifiedInv_same: "sameNotified s s' \<Longrightarrow> notifiedInv s \<Longrightarrow> notifiedInv s'"
  by (simp add: sameNotified_def notifiedInv_def)

lemma step_notifiedInv:
  assumes "notifiedInv s" "step cfg supp e s = Some s'"
  shows "notifiedInv s'"
  using step_shape [OF assms(2)] assms(1)
  by (blast intro: notifiedInv_same updateTabState_notifiedInv)

lemma step_quiet:
  assumes "step cfg supp e s = Some s'" "callbackCalls s' = callbackCalls s"
  shows "prevIsMultiTabRef s' = prevIsMultiTabRef s \<and> prevTabCountRef s' = prevTabCountRef s"
  using step_shape [OF assms(1)]
proof (elim disjE exE conjE)
  assume "sameNotified s s'"
  then show ?thesis by (simp add: sameNotified_def)
next
  fix x now u
  assume a: "sameNotified (updateTabState cfg now u x) s'" "sameNotified s x"
  with assms(2) have "callbackCalls (updateTabState cfg now u x) = callbackCalls x"
    by (simp add: sameNotified_def)
  from updateTabState_quiet [OF this] a show ?thesis by (simp add: sameNotified_def)
qed

lemma run_notifiedInv:
  assumes "run cfg supp es (initialState tid) = Some s"
  shows "notifiedInv s"
proof -
  have "notifiedInv (initialState tid)" by (simp add: notifiedInv_def initialState_def)
  with step_notifiedInv show ?thesis using assms by (rule run_invariant)
qed

subsection \<open>The pending leader re-evaluation\<close>












subsection \<open>Recomputation and stale entries\<close>

lemma updateTabState_get_other:
  assumes "distinct (Map_keys (activeTabsRef s))" "k \<noteq> tabIdRef s"
  shows "Map_get (activeTabsRef (updateTabState cfg now u s)) k =
     (case Map_get (activeTabsRef s) k of
        None \<Rightarrow> None
      | Some i \<Rightarrow> if now - lastHeartbeat i < inactivityThreshold cfg then Some i else None)"
proof -
  let ?f = "filter (\<lambda>(k, info). now - lastHeartbeat info < inactivityThreshold cfg) (activeTabsRef s)"
  have "distinct (Map_keys ?f)" using assms(1) by (rule distinct_keys_filter)
  then have "new_Map ?f = ?f" by (rule new_Map_distinct_id)
  then have "Map_get (activeTabsRef (updateTabState cfg now u s)) k = Map_get ?f k"
    using assms(2) by (simp add: updateTabState_table update_conv')
  also have "\<dots> = (case Map_get (activeTabsRef s) k of
        None \<Rightarrow> None
      | Some i \<Rightarrow> if now - lastHeartbeat i < inactivityThreshold cfg then Some i else None)"
    using assms(1) by (rule Map_get_filter)
  finally show ?thesis .
qed

lemma handleMessage_recompute:
  assumes "m_tabId m \<noteq> tabIdRef s" "m_type m \<noteq> RequestLeader"
  shows "\<exists>x. handleMessage cfg tSend now u m s = updateTabState cfg now u x \<and>
             tabIdRef x = tabIdRef s \<and>
             activeTabsRef x =
               (if m_type m = TabClosed then Map_delete (m_tabId m) (activeTabsRef s)
                else Map_set (m_tabId m)
                       \<lparr>tabId = m_tabId m, lastHeartbeat = m_timestamp m,
                        url = (case m_url m of None \<Rightarrow> [] | Some u \<Rightarrow> u)\<rparr>
                       (activeTabsRef s)) \<and>
             posted x =
               (if m_type m = RequestActiveTabs then posted (sendMessage tSend u Heartbeat s)
                else posted s)"
  using assms
  by (cases "m_type m")
     (auto simp: handleMessage_def upsertSender_def sendMessage_frame sendMessage_posted)

lemma handleMessage_get_other:
  assumes "distinct (Map_keys (activeTabsRef s))" "k \<noteq> tabIdRef s"
    "m_tabId m \<noteq> tabIdRef s" "k \<noteq> m_tabId m" "m_type m \<noteq> RequestLeader"
  shows "Map_get (activeTabsRef (handleMessage cfg tSend now u m s)) k =
     (case Map_get (activeTabsRef s) k of
        None \<Rightarrow> None
      | Some i \<Rightarrow> if now - lastHeartbeat i < inactivityThreshold cfg then Some i else None)"
proof -
  from handleMessage_recompute [OF assms(3,5), of cfg tSend now u] obtain x where
    x: "handleMessage cfg tSend now u m s = updateTabState cfg now u x"
       "tabIdRef x = tabIdRef s"
       "activeTabsRef x =
               (if m_type m = TabClosed then Map_delete (m_tabId m) (activeTabsRef s)
                else Map_set (m_tabId m)
                       \<lparr>tabId = m_tabId m, lastHeartbeat = m_timestamp m,
                        url = (case m_url m of None \<Rightarrow> [] | Some u \<Rightarrow> u)\<rparr>
                       (activeTabsRef s))"
    by blast
  have d: "distinct (Map_keys (activeTabsRef x))"
    using assms(1) by (simp add: x(3) distinct_update distinct_delete)
  have g: "Map_get (activeTabsRef x) k = Map_get (activeTabsRef s) k"
    using assms(4) by (simp add: x(3) update_conv' delete_conv')
  from assms(2) x(2) have "k \<noteq> tabIdRef x" by simp
  from updateTabState_get_other [OF d this, of cfg now u] show ?thesis
    by (simp add: x(1) g)
qed

lemma handleMessage_get_sender:
  assumes "distinct (Map_keys (activeTabsRef s))" "m_tabId m \<noteq> tabIdRef s"
    "m_type m = Heartbeat \<or> m_type m = RequestActiveTabs"
  shows "Map_get (activeTabsRef (handleMessage cfg tSend now u m s)) (m_tabId m) =
     (if now - m_timestamp m < inactivityThreshold cfg
      then Some \<lparr>tabId = m_tabId m, lastHeartbeat = m_timestamp m,
                 url = (case m_url m of None \<Rightarrow> [] | Some u \<Rightarrow> u)\<rparr>
      else None)"
    and "posted (handleMessage cfg tSend now u m s) =
     (if m_type m = RequestActiveTabs \<and> channelRef s = Some ChannelOpen
      then posted s @ [\<lparr>m_type = Heartbeat, m_tabId = tabIdRef s, m_timestamp = tSend,
                         m_url = Some u\<rparr>]
      else posted s)"
proof -
  from assms(3) have ty: "m_type m \<noteq> RequestLeader" "m_type m \<noteq> TabClosed" by auto
  from handleMessage_recompute [OF assms(2) ty(1), of cfg tSend now u] ty(2) obtain x where
    x: "handleMessage cfg tSend now u m s = updateTabState cfg now u x"
       "tabIdRef x = tabIdRef s"
       "activeTabsRef x = Map_set (m_tabId m)
                       \<lparr>tabId = m_tabId m, lastHeartbeat = m_timestamp m,
                        url = (case m_url m of None \<Rightarrow> [] | Some u \<Rightarrow> u)\<rparr>
                       (activeTabsRef s)"
       "posted x =
               (if m_type m = RequestActiveTabs then posted (sendMessage tSend u Heartbeat s)
                else posted s)"
    by auto
  have d: "distinct (Map_keys (activeTabsRef x))"
    using assms(1) by (simp add: x(3) distinct_update)
  from assms(2) x(2) have "m_tabId m \<noteq> tabIdRef x" by simp
  from updateTabState_get_other [OF d this, of cfg now u]
  show "Map_get (activeTabsRef (handleMessage cfg tSend now u m s)) (m_tabId m) =
     (if now - m_timestamp m < inactivityThreshold cfg
      then Some \<lparr>tabId = m_tabId m, lastHeartbeat = m_timestamp m,
                 url = (case m_url m of None \<Rightarrow> [] | Some u \<Rightarrow> u)\<rparr>
      else None)"
    by (simp add: x(1) x(3) update_conv')
  show "posted (handleMessage cfg tSend now u m s) =
     (if m_type m = RequestActiveTabs \<and> channelRef s = Some ChannelOpen
      then posted s @ [\<lparr>m_type = Heartbeat, m_tabId = tabIdRef s, m_timestamp = tSend,
                         m_url = Some u\<rparr>]
      else posted s)"
    by (simp add: x(1) x(4) updateTabState_frame sendMessage_posted)
qed

section \<open>Properties of the specification\<close>

text \<open>
  Claim C1. For every presence table and own id, \<^verbatim>\<open>determineLeadership\<close> returns true
  exactly when the own id is lexicographically less than or equal to every id of the
  table. The call writes nothing but \<^verbatim>\<open>isLeaderRef\<close>, which stores the result. The result
  depends on the set of ids only, and two instances whose known id sets (table keys and
  own id) are equal find the same id at the front of the sorted list, so at most one of
  them takes itself for the leader.
\<close>

theorem determineLeadership_least_id:
  "(fst (determineLeadership s) \<longleftrightarrow>
      (\<forall>k\<in>set (Map_keys (activeTabsRef s)). tabIdRef s \<le> k)) \<and>
   snd (determineLeadership s) = s\<lparr>isLeaderRef := fst (determineLeadership s)\<rparr> \<and>
   (set (Map_keys (activeTabsRef s)) = set (Map_keys (activeTabsRef s')) \<and>
    tabIdRef s = tabIdRef s' \<longrightarrow>
      fst (determineLeadership s) = fst (determineLeadership s')) \<and>
   (insert (tabIdRef s) (set (Map_keys (activeTabsRef s))) =
    insert (tabIdRef s') (set (Map_keys (activeTabsRef s'))) \<longrightarrow>
      hd (allTabIds s) = hd (allTabIds s') \<and>
      (fst (determineLeadership s) \<and> fst (determineLeadership s') \<longrightarrow>
         tabIdRef s = tabIdRef s'))"
proof -
  have same_hd: "hd (allTabIds s) = hd (allTabIds s')"
    if "insert (tabIdRef s) (set (Map_keys (activeTabsRef s))) =
        insert (tabIdRef s') (set (Map_keys (activeTabsRef s')))"
    using that by (simp only: allTabIds_hd)
  have same_self: "fst (determineLeadership s) = fst (determineLeadership s')"
    if "set (Map_keys (activeTabsRef s)) = set (Map_keys (activeTabsRef s'))"
       "tabIdRef s = tabIdRef s'"
    using that by (simp only: determineLeadership_least)
  show ?thesis
    using same_hd same_self determineLeadership_least [of s] determineLeadership_snd [of s]
    by (metis determineLeadership_fst)
qed

theorem determineLeadership_least_id_witness:
  "''a-100'' \<le> ''b-200'' \<and>
   fst (determineLeadership
     ((initialState ''a-100'')
        \<lparr>activeTabsRef := [(''b-200'', \<lparr>tabId = ''b-200'', lastHeartbeat = 5, url = ''urlB''\<rparr>)]\<rparr>)) \<and>
   insert ''a-100'' (set (Map_keys [(''b-200'', \<lparr>tabId = ''b-200'', lastHeartbeat = 5, url = ''urlB''\<rparr>)])) =
   insert ''b-200'' (set (Map_keys [(''a-100'', \<lparr>tabId = ''a-100'', lastHeartbeat = 7, url = ''urlA''\<rparr>)])) \<and>
   hd (allTabIds ((initialState ''a-100'')
        \<lparr>activeTabsRef := [(''b-200'', \<lparr>tabId = ''b-200'', lastHeartbeat = 5, url = ''urlB''\<rparr>)]\<rparr>)) =
   hd (allTabIds ((initialState ''b-200'')
        \<lparr>activeTabsRef := [(''a-100'', \<lparr>tabId = ''a-100'', lastHeartbeat = 7, url = ''urlA''\<rparr>)]\<rparr>)) \<and>
   \<not> fst (determineLeadership
     ((initialState ''b-200'')
        \<lparr>activeTabsRef := [(''a-100'', \<lparr>tabId = ''a-100'', lastHeartbeat = 7, url = ''urlA''\<rparr>)]\<rparr>))"
  using determineLeadership_least_id
    [of "(initialState ''a-100'')
           \<lparr>activeTabsRef := [(''b-200'', \<lparr>tabId = ''b-200'', lastHeartbeat = 5, url = ''urlB''\<rparr>)]\<rparr>"
        "(initialState ''b-200'')
           \<lparr>activeTabsRef := [(''a-100'', \<lparr>tabId = ''a-100'', lastHeartbeat = 7, url = ''urlA''\<rparr>)]\<rparr>"]
  by (simp add: initialState_def insert_commute)

text \<open>
  Claim C2. On every recomputation the callback is called exactly when the instance is
  the leader of the recomputed table, a callback is registered, and the new pair
  (isMulti, count) differs from the last-notified pair. When it is called, it gets the new
  flag, count and url map, and the pair is stored as last-notified; a further
  recomputation that yields the same pair does not call it again.
\<close>

theorem updateTabState_callback_iff:
  "(callbackCalls (updateTabState cfg now u s) \<noteq> callbackCalls s \<longleftrightarrow>
      isLeaderRef (updateTabState cfg now u s) \<and> onMultiTabChange cfg \<and>
      (isMultiTab (updateTabState cfg now u s), tabCount (updateTabState cfg now u s)) \<noteq>
        (prevIsMultiTabRef s, prevTabCountRef s)) \<and>
   (isLeaderRef (updateTabState cfg now u s) \<longleftrightarrow>
      (\<forall>k\<in>set (Map_keys (activeTabsRef (updateTabState cfg now u s))). tabIdRef s \<le> k)) \<and>
   (callbackCalls (updateTabState cfg now u s) \<noteq> callbackCalls s \<longrightarrow>
      callbackCalls (updateTabState cfg now u s) =
        callbackCalls s @
          [(isMultiTab (updateTabState cfg now u s), tabCount (updateTabState cfg now u s),
            activeTabUrls (updateTabState cfg now u s))] \<and>
      (prevIsMultiTabRef (updateTabState cfg now u s),
       prevTabCountRef (updateTabState cfg now u s)) =
        (isMultiTab (updateTabState cfg now u s), tabCount (updateTabState cfg now u s))) \<and>
   ((isMultiTab (updateTabState cfg now' u' (updateTabState cfg now u s)),
     tabCount (updateTabState cfg now' u' (updateTabState cfg now u s))) =
      (isMultiTab (updateTabState cfg now u s), tabCount (updateTabState cfg now u s)) \<and>
    callbackCalls (updateTabState cfg now u s) \<noteq> callbackCalls s \<longrightarrow>
      callbackCalls (updateTabState cfg now' u' (updateTabState cfg now u s)) =
        callbackCalls (updateTabState cfg now u s))"
proof -
  let ?s' = "updateTabState cfg now u s"
  let ?s'' = "updateTabState cfg now' u' ?s'"
  let ?fire = "isLeaderRef ?s' \<and> onMultiTabChange cfg \<and>
      (isMultiTab ?s', tabCount ?s') \<noteq> (prevIsMultiTabRef s, prevTabCountRef s)"
  have calls: "callbackCalls ?s' =
      (if ?fire then callbackCalls s @ [(isMultiTab ?s', tabCount ?s', activeTabUrls ?s')]
       else callbackCalls s)"
    by (subst updateTabState_calls) auto
  have prev: "(prevIsMultiTabRef ?s', prevTabCountRef ?s') =
      (if ?fire then (isMultiTab ?s', tabCount ?s') else (prevIsMultiTabRef s, prevTabCountRef s))"
    by (subst updateTabState_prev) auto
  have iff: "callbackCalls ?s' \<noteq> callbackCalls s \<longleftrightarrow> ?fire"
    by (subst calls) simp
  have leader: "isLeaderRef ?s' \<longleftrightarrow> (\<forall>k\<in>set (Map_keys (activeTabsRef ?s')). tabIdRef s \<le> k)"
    using determineLeadership_least [of ?s']
    by (simp add: updateTabState_leader updateTabState_frame)
  have again: "callbackCalls ?s'' = callbackCalls ?s'"
    if "(isMultiTab ?s'', tabCount ?s'') = (isMultiTab ?s', tabCount ?s')" ?fire
  proof -
    from that prev have "(prevIsMultiTabRef ?s', prevTabCountRef ?s') = (isMultiTab ?s'', tabCount ?s'')"
      by simp
    then show ?thesis
      by (subst updateTabState_calls) auto
  qed
  show ?thesis
    using iff leader calls prev again by (simp del: prod.inject Pair_inject) 
qed

theorem updateTabState_callback_iff_witness:
  "callbackCalls (updateTabState \<lparr>inactivityThreshold = 30000, onMultiTabChange = True\<rparr> 10 ''urlA'' ((initialState ''a-100'')\<lparr>activeTabsRef := [(''b-200'', \<lparr>tabId = ''b-200'', lastHeartbeat = 5, url = ''urlB''\<rparr>)]\<rparr>)) \<noteq>
     callbackCalls ((initialState ''a-100'')\<lparr>activeTabsRef := [(''b-200'', \<lparr>tabId = ''b-200'', lastHeartbeat = 5, url = ''urlB''\<rparr>)]\<rparr>) \<and>
   callbackCalls (updateTabState \<lparr>inactivityThreshold = 30000, onMultiTabChange = True\<rparr> 10 ''urlA'' ((initialState ''a-100'')\<lparr>activeTabsRef := [(''b-200'', \<lparr>tabId = ''b-200'', lastHeartbeat = 5, url = ''urlB''\<rparr>)]\<rparr>)) =
     [(True, 2, [(''b-200'', ''urlB''), (''a-100'', ''urlA'')])] \<and>
   isLeaderRef (updateTabState \<lparr>inactivityThreshold = 30000, onMultiTabChange = True\<rparr> 10 ''urlA'' ((initialState ''a-100'')\<lparr>activeTabsRef := [(''b-200'', \<lparr>tabId = ''b-200'', lastHeartbeat = 5, url = ''urlB''\<rparr>)]\<rparr>)) \<and>
   (isMultiTab (updateTabState \<lparr>inactivityThreshold = 30000, onMultiTabChange = True\<rparr> 20 ''urlA'' (updateTabState \<lparr>inactivityThreshold = 30000, onMultiTabChange = True\<rparr> 10 ''urlA'' ((initialState ''a-100'')\<lparr>activeTabsRef := [(''b-200'', \<lparr>tabId = ''b-200'', lastHeartbeat = 5, url = ''urlB''\<rparr>)]\<rparr>))),
    tabCount (updateTabState \<lparr>inactivityThreshold = 30000, onMultiTabChange = True\<rparr> 20 ''urlA'' (updateTabState \<lparr>inactivityThreshold = 30000, onMultiTabChange = True\<rparr> 10 ''urlA'' ((initialState ''a-100'')\<lparr>activeTabsRef := [(''b-200'', \<lparr>tabId = ''b-200'', lastHeartbeat = 5, url = ''urlB''\<rparr>)]\<rparr>)))) =
   (isMultiTab (updateTabState \<lparr>inactivityThreshold = 30000, onMultiTabChange = True\<rparr> 10 ''urlA'' ((initialState ''a-100'')\<lparr>activeTabsRef := [(''b-200'', \<lparr>tabId = ''b-200'', lastHeartbeat = 5, url = ''urlB''\<rparr>)]\<rparr>)),
    tabCount (updateTabState \<lparr>inactivityThreshold = 30000, onMultiTabChange = True\<rparr> 10 ''urlA'' ((initialState ''a-100'')\<lparr>activeTabsRef := [(''b-200'', \<lparr>tabId = ''b-200'', lastHeartbeat = 5, url = ''urlB''\<rparr>)]\<rparr>))) \<and>
   callbackCalls (updateTabState \<lparr>inactivityThreshold = 30000, onMultiTabChange = True\<rparr> 20 ''urlA'' (updateTabState \<lparr>inactivityThreshold = 30000, onMultiTabChange = True\<rparr> 10 ''urlA'' ((initialState ''a-100'')\<lparr>activeTabsRef := [(''b-200'', \<lparr>tabId = ''b-200'', lastHeartbeat = 5, url = ''urlB''\<rparr>)]\<rparr>))) =
     callbackCalls (updateTabState \<lparr>inactivityThreshold = 30000, onMultiTabChange = True\<rparr> 10 ''urlA'' ((initialState ''a-100'')\<lparr>activeTabsRef := [(''b-200'', \<lparr>tabId = ''b-200'', lastHeartbeat = 5, url = ''urlB''\<rparr>)]\<rparr>))"
proof -
  have fired: "callbackCalls (updateTabState \<lparr>inactivityThreshold = 30000, onMultiTabChange = True\<rparr> 10 ''urlA'' ((initialState ''a-100'')\<lparr>activeTabsRef := [(''b-200'', \<lparr>tabId = ''b-200'', lastHeartbeat = 5, url = ''urlB''\<rparr>)]\<rparr>)) \<noteq>
     callbackCalls ((initialState ''a-100'')\<lparr>activeTabsRef := [(''b-200'', \<lparr>tabId = ''b-200'', lastHeartbeat = 5, url = ''urlB''\<rparr>)]\<rparr>)"
    by code_simp
  have args: "callbackCalls (updateTabState \<lparr>inactivityThreshold = 30000, onMultiTabChange = True\<rparr> 10 ''urlA'' ((initialState ''a-100'')\<lparr>activeTabsRef := [(''b-200'', \<lparr>tabId = ''b-200'', lastHeartbeat = 5, url = ''urlB''\<rparr>)]\<rparr>)) =
     [(True, 2, [(''b-200'', ''urlB''), (''a-100'', ''urlA'')])]"
    by code_simp
  have same: "(isMultiTab (updateTabState \<lparr>inactivityThreshold = 30000, onMultiTabChange = True\<rparr> 20 ''urlA'' (updateTabState \<lparr>inactivityThreshold = 30000, onMultiTabChange = True\<rparr> 10 ''urlA'' ((initialState ''a-100'')\<lparr>activeTabsRef := [(''b-200'', \<lparr>tabId = ''b-200'', lastHeartbeat = 5, url = ''urlB''\<rparr>)]\<rparr>))),
    tabCount (updateTabState \<lparr>inactivityThreshold = 30000, onMultiTabChange = True\<rparr> 20 ''urlA'' (updateTabState \<lparr>inactivityThreshold = 30000, onMultiTabChange = True\<rparr> 10 ''urlA'' ((initialState ''a-100'')\<lparr>activeTabsRef := [(''b-200'', \<lparr>tabId = ''b-200'', lastHeartbeat = 5, url = ''urlB''\<rparr>)]\<rparr>)))) =
   (isMultiTab (updateTabState \<lparr>inactivityThreshold = 30000, onMultiTabChange = True\<rparr> 10 ''urlA'' ((initialState ''a-100'')\<lparr>activeTabsRef := [(''b-200'', \<lparr>tabId = ''b-200'', lastHeartbeat = 5, url = ''urlB''\<rparr>)]\<rparr>)),
    tabCount (updateTabState \<lparr>inactivityThreshold = 30000, onMultiTabChange = True\<rparr> 10 ''urlA'' ((initialState ''a-100'')\<lparr>activeTabsRef := [(''b-200'', \<lparr>tabId = ''b-200'', lastHeartbeat = 5, url = ''urlB''\<rparr>)]\<rparr>)))"
    by code_simp
  from updateTabState_callback_iff
    [of "\<lparr>inactivityThreshold = 30000, onMultiTabChange = True\<rparr>" 10 "''urlA''"
        "((initialState ''a-100'')\<lparr>activeTabsRef := [(''b-200'', \<lparr>tabId = ''b-200'', lastHeartbeat = 5, url = ''urlB''\<rparr>)]\<rparr>)" 20 "''urlA''"]
  show ?thesis using fired args same by blast
qed

text \<open>
  Claim C4. On a table with unique keys, the sweep of \<^verbatim>\<open>cleanupInactiveTabs\<close> removes exactly
  the entries whose id is not the own id and whose
  \<open>now - lastHeartbeat \<ge> inactivityThreshold\<close>, so the own entry stays as it is; the flag
  \<^verbatim>\<open>hasChanges\<close> is set exactly when such an entry exists, which is exactly when the
  table changed; and \<^verbatim>\<open>updateTabState\<close> is run on the swept table in that case, while
  otherwise the state is left as it was.
\<close>

theorem cleanupInactiveTabs_sweep:
  "distinct (Map_keys (activeTabsRef s)) \<Longrightarrow>
   fst (sweep cfg now s) =
     filter (\<lambda>(k, i). \<not> (k \<noteq> tabIdRef s \<and> inactivityThreshold cfg \<le> now - lastHeartbeat i))
       (activeTabsRef s) \<and>
   Map_get (fst (sweep cfg now s)) (tabIdRef s) = Map_get (activeTabsRef s) (tabIdRef s) \<and>
   (snd (sweep cfg now s) \<longleftrightarrow>
      (\<exists>(k, i)\<in>set (activeTabsRef s).
         k \<noteq> tabIdRef s \<and> inactivityThreshold cfg \<le> now - lastHeartbeat i)) \<and>
   (snd (sweep cfg now s) \<longleftrightarrow> fst (sweep cfg now s) \<noteq> activeTabsRef s) \<and>
   cleanupInactiveTabs cfg now now' u s =
     (if fst (sweep cfg now s) \<noteq> activeTabsRef s
      then updateTabState cfg now' u (s\<lparr>activeTabsRef := fst (sweep cfg now s)\<rparr>)
      else s)"
proof -
  assume d: "distinct (Map_keys (activeTabsRef s))"
  let ?stale = "\<lambda>(k, i). k \<noteq> tabIdRef s \<and> inactivityThreshold cfg \<le> now - lastHeartbeat i"
  let ?keep = "\<lambda>(k, i). \<not> (k \<noteq> tabIdRef s \<and> inactivityThreshold cfg \<le> now - lastHeartbeat i)"
  have sw: "sweep cfg now s = (filter ?keep (activeTabsRef s), \<exists>e\<in>set (activeTabsRef s). ?stale e)"
    using sweep_distinct [OF d] by simp
  have self: "Map_get (filter ?keep (activeTabsRef s)) (tabIdRef s) = Map_get (activeTabsRef s) (tabIdRef s)"
  proof (cases "Map_get (activeTabsRef s) (tabIdRef s)")
    case None
    then have n: "tabIdRef s \<notin> fst ` set (activeTabsRef s)"
      by (simp add: map_of_eq_None_iff)
    have "fst ` set (filter ?keep (activeTabsRef s)) \<subseteq> fst ` set (activeTabsRef s)"
      by auto
    with n have "tabIdRef s \<notin> fst ` set (filter ?keep (activeTabsRef s))" by blast
    then have "Map_get (filter ?keep (activeTabsRef s)) (tabIdRef s) = None"
      by (rule map_of_eq_None_iff [THEN iffD2])
    with None show ?thesis by simp
  next
    case (Some i)
    then have "(tabIdRef s, i) \<in> set (filter ?keep (activeTabsRef s))"
      by (auto dest: map_of_SomeD)
    moreover have "distinct (Map_keys (filter ?keep (activeTabsRef s)))"
      using d by (rule distinct_keys_filter)
    ultimately show ?thesis using Some by simp
  qed
  have changed: "(\<exists>e\<in>set (activeTabsRef s). ?stale e) \<longleftrightarrow> filter ?keep (activeTabsRef s) \<noteq> activeTabsRef s"
    by (auto simp: filter_id_conv)
  have cl: "cleanupInactiveTabs cfg now now' u s =
     (if filter ?keep (activeTabsRef s) \<noteq> activeTabsRef s
      then updateTabState cfg now' u (s\<lparr>activeTabsRef := filter ?keep (activeTabsRef s)\<rparr>)
      else s)"
    unfolding cleanupInactiveTabs_def sw using changed by auto
  show ?thesis
    unfolding sw fst_conv snd_conv using self changed cl by auto
qed

theorem cleanupInactiveTabs_sweep_witness:
  "distinct (Map_keys (activeTabsRef ((initialState ''a'')\<lparr>activeTabsRef := [(''a'', \<lparr>tabId = ''a'', lastHeartbeat = 0, url = ''urlA''\<rparr>), (''b'', \<lparr>tabId = ''b'', lastHeartbeat = 0, url = ''urlB''\<rparr>), (''c'', \<lparr>tabId = ''c'', lastHeartbeat = 50000, url = ''urlC''\<rparr>)]\<rparr>))) \<and>
   fst (sweep \<lparr>inactivityThreshold = 30000, onMultiTabChange = False\<rparr> 60000 ((initialState ''a'')\<lparr>activeTabsRef := [(''a'', \<lparr>tabId = ''a'', lastHeartbeat = 0, url = ''urlA''\<rparr>), (''b'', \<lparr>tabId = ''b'', lastHeartbeat = 0, url = ''urlB''\<rparr>), (''c'', \<lparr>tabId = ''c'', lastHeartbeat = 50000, url = ''urlC''\<rparr>)]\<rparr>)) =
     [(''a'', \<lparr>tabId = ''a'', lastHeartbeat = 0, url = ''urlA''\<rparr>), (''c'', \<lparr>tabId = ''c'', lastHeartbeat = 50000, url = ''urlC''\<rparr>)] \<and>
   snd (sweep \<lparr>inactivityThreshold = 30000, onMultiTabChange = False\<rparr> 60000 ((initialState ''a'')\<lparr>activeTabsRef := [(''a'', \<lparr>tabId = ''a'', lastHeartbeat = 0, url = ''urlA''\<rparr>), (''b'', \<lparr>tabId = ''b'', lastHeartbeat = 0, url = ''urlB''\<rparr>), (''c'', \<lparr>tabId = ''c'', lastHeartbeat = 50000, url = ''urlC''\<rparr>)]\<rparr>)) \<and>
   cleanupInactiveTabs \<lparr>inactivityThreshold = 30000, onMultiTabChange = False\<rparr> 60000 60001 ''urlA'' ((initialState ''a'')\<lparr>activeTabsRef := [(''a'', \<lparr>tabId = ''a'', lastHeartbeat = 0, url = ''urlA''\<rparr>), (''b'', \<lparr>tabId = ''b'', lastHeartbeat = 0, url = ''urlB''\<rparr>), (''c'', \<lparr>tabId = ''c'', lastHeartbeat = 50000, url = ''urlC''\<rparr>)]\<rparr>) =
     updateTabState \<lparr>inactivityThreshold = 30000, onMultiTabChange = False\<rparr> 60001 ''urlA''
       (((initialState ''a'')\<lparr>activeTabsRef := [(''a'', \<lparr>tabId = ''a'', lastHeartbeat = 0, url = ''urlA''\<rparr>), (''b'', \<lparr>tabId = ''b'', lastHeartbeat = 0, url = ''urlB''\<rparr>), (''c'', \<lparr>tabId = ''c'', lastHeartbeat = 50000, url = ''urlC''\<rparr>)]\<rparr>)
          \<lparr>activeTabsRef := [(''a'', \<lparr>tabId = ''a'', lastHeartbeat = 0, url = ''urlA''\<rparr>), (''c'', \<lparr>tabId = ''c'', lastHeartbeat = 50000, url = ''urlC''\<rparr>)]\<rparr>)"
proof -
  have d: "distinct (Map_keys (activeTabsRef ((initialState ''a'')\<lparr>activeTabsRef := [(''a'', \<lparr>tabId = ''a'', lastHeartbeat = 0, url = ''urlA''\<rparr>), (''b'', \<lparr>tabId = ''b'', lastHeartbeat = 0, url = ''urlB''\<rparr>), (''c'', \<lparr>tabId = ''c'', lastHeartbeat = 50000, url = ''urlC''\<rparr>)]\<rparr>)))"
    by (simp add: initialState_def)
  from cleanupInactiveTabs_sweep [OF d, of "\<lparr>inactivityThreshold = 30000, onMultiTabChange = False\<rparr>" 60000 60001 "''urlA''"]
  show ?thesis by (simp add: initialState_def)
qed

text \<open>
  Claim C5. After every recomputation, from any state, the table holds the own id, the
  published count is the size of the table and at least 1, and the published flag is
  \<open>count > 1\<close>. In every state of a run of the instance the count is at least 1 and the
  flag is \<open>count > 1\<close>; the table is either still empty, which is the case before the first
  recomputation, or holds the own id with the count equal to its size.
\<close>

theorem recomputation_count_invariant:
  "tabIdRef s \<in> set (Map_keys (activeTabsRef (updateTabState cfg now u s))) \<and>
   distinct (Map_keys (activeTabsRef (updateTabState cfg now u s))) \<and>
   tabCount (updateTabState cfg now u s) = Map_size (activeTabsRef (updateTabState cfg now u s)) \<and>
   1 \<le> tabCount (updateTabState cfg now u s) \<and>
   isMultiTab (updateTabState cfg now u s) = (1 < tabCount (updateTabState cfg now u s)) \<and>
   (run cfg supp es (initialState tid) = Some s' \<longrightarrow>
      tabIdRef s' = tid \<and> distinct (Map_keys (activeTabsRef s')) \<and>
      1 \<le> tabCount s' \<and> isMultiTab s' = (1 < tabCount s') \<and>
      (activeTabsRef s' = [] \<or>
       tid \<in> set (Map_keys (activeTabsRef s')) \<and> tabCount s' = Map_size (activeTabsRef s')))"
proof -
  have a: "tableInv (updateTabState cfg now u s)" by (rule updateTabState_tableInv)
  have b: "tableInv s'" "tabIdRef s' = tid" if "run cfg supp es (initialState tid) = Some s'"
    using that by (rule run_tableInv, rule run_tabIdRef)
  have ne: "activeTabsRef (updateTabState cfg now u s) \<noteq> []"
    by (simp add: updateTabState_table)
  show ?thesis
    using a b ne updateTabState_self_in [of s cfg now u]
    unfolding tableInv_def by (auto simp: updateTabState_frame)
qed

theorem recomputation_count_invariant_witness:
  "(run \<lparr>inactivityThreshold = 30000, onMultiTabChange = True\<rparr> True [Mount False 0 0 0 ''urlA'', Deliver \<lparr>m_type = Heartbeat, m_tabId = ''b-200'', m_timestamp = 5, m_url = Some ''urlB''\<rparr> 6 6 ''urlA''] (initialState ''a-100'')) = Some (the (run \<lparr>inactivityThreshold = 30000, onMultiTabChange = True\<rparr> True [Mount False 0 0 0 ''urlA'', Deliver \<lparr>m_type = Heartbeat, m_tabId = ''b-200'', m_timestamp = 5, m_url = Some ''urlB''\<rparr> 6 6 ''urlA''] (initialState ''a-100''))) \<and>
   tabCount (the (run \<lparr>inactivityThreshold = 30000, onMultiTabChange = True\<rparr> True [Mount False 0 0 0 ''urlA'', Deliver \<lparr>m_type = Heartbeat, m_tabId = ''b-200'', m_timestamp = 5, m_url = Some ''urlB''\<rparr> 6 6 ''urlA''] (initialState ''a-100''))) = 2 \<and>
   isMultiTab (the (run \<lparr>inactivityThreshold = 30000, onMultiTabChange = True\<rparr> True [Mount False 0 0 0 ''urlA'', Deliver \<lparr>m_type = Heartbeat, m_tabId = ''b-200'', m_timestamp = 5, m_url = Some ''urlB''\<rparr> 6 6 ''urlA''] (initialState ''a-100''))) \<and>
   ''a-100'' \<in> set (Map_keys (activeTabsRef (the (run \<lparr>inactivityThreshold = 30000, onMultiTabChange = True\<rparr> True [Mount False 0 0 0 ''urlA'', Deliver \<lparr>m_type = Heartbeat, m_tabId = ''b-200'', m_timestamp = 5, m_url = Some ''urlB''\<rparr> 6 6 ''urlA''] (initialState ''a-100''))))) \<and>
   tabCount (the (run \<lparr>inactivityThreshold = 30000, onMultiTabChange = True\<rparr> True [Mount False 0 0 0 ''urlA'', Deliver \<lparr>m_type = Heartbeat, m_tabId = ''b-200'', m_timestamp = 5, m_url = Some ''urlB''\<rparr> 6 6 ''urlA''] (initialState ''a-100''))) =
     Map_size (activeTabsRef (the (run \<lparr>inactivityThreshold = 30000, onMultiTabChange = True\<rparr> True [Mount False 0 0 0 ''urlA'', Deliver \<lparr>m_type = Heartbeat, m_tabId = ''b-200'', m_timestamp = 5, m_url = Some ''urlB''\<rparr> 6 6 ''urlA''] (initialState ''a-100''))))"
proof -
  have r: "(run \<lparr>inactivityThreshold = 30000, onMultiTabChange = True\<rparr> True [Mount False 0 0 0 ''urlA'', Deliver \<lparr>m_type = Heartbeat, m_tabId = ''b-200'', m_timestamp = 5, m_url = Some ''urlB''\<rparr> 6 6 ''urlA''] (initialState ''a-100'')) = Some (the (run \<lparr>inactivityThreshold = 30000, onMultiTabChange = True\<rparr> True [Mount False 0 0 0 ''urlA'', Deliver \<lparr>m_type = Heartbeat, m_tabId = ''b-200'', m_timestamp = 5, m_url = Some ''urlB''\<rparr> 6 6 ''urlA''] (initialState ''a-100'')))"
    by code_simp
  have v: "tabCount (the (run \<lparr>inactivityThreshold = 30000, onMultiTabChange = True\<rparr> True [Mount False 0 0 0 ''urlA'', Deliver \<lparr>m_type = Heartbeat, m_tabId = ''b-200'', m_timestamp = 5, m_url = Some ''urlB''\<rparr> 6 6 ''urlA''] (initialState ''a-100''))) = 2"
    by code_simp
  have ne: "activeTabsRef (the (run \<lparr>inactivityThreshold = 30000, onMultiTabChange = True\<rparr> True [Mount False 0 0 0 ''urlA'', Deliver \<lparr>m_type = Heartbeat, m_tabId = ''b-200'', m_timestamp = 5, m_url = Some ''urlB''\<rparr> 6 6 ''urlA''] (initialState ''a-100''))) \<noteq> []"
    by code_simp
  from recomputation_count_invariant
    [where cfg = "\<lparr>inactivityThreshold = 30000, onMultiTabChange = True\<rparr>" and supp = True and tid = "''a-100''"
       and es = "[Mount False 0 0 0 ''urlA'', Deliver \<lparr>m_type = Heartbeat, m_tabId = ''b-200'', m_timestamp = 5, m_url = Some ''urlB''\<rparr> 6 6 ''urlA'']"
       and s' = "the (run \<lparr>inactivityThreshold = 30000, onMultiTabChange = True\<rparr> True [Mount False 0 0 0 ''urlA'', Deliver \<lparr>m_type = Heartbeat, m_tabId = ''b-200'', m_timestamp = 5, m_url = Some ''urlB''\<rparr> 6 6 ''urlA''] (initialState ''a-100''))"]
  show ?thesis using r v ne by auto
qed

text \<open>
  Claim C8. When \<^verbatim>\<open>BroadcastChannel\<close> is not available, every run of the instance leaves
  it inert: nothing is posted, no timer is pending, no channel exists, the callback is
  never called, and the published state stays \<open>isSupported = false\<close>, \<open>count = 1\<close>,
  \<open>isMulti = false\<close>.
\<close>

theorem unsupported_inert:
  "run cfg False es (initialState tid) = Some s \<Longrightarrow>
   posted s = [] \<and> timers s = [] \<and> channelRef s = None \<and> callbackCalls s = [] \<and>
   \<not> isSupported s \<and> tabCount s = 1 \<and> \<not> isMultiTab s"
  by (drule run_unsupported) (simp add: initialState_def)

theorem unsupported_inert_witness:
  "run \<lparr>inactivityThreshold = 30000, onMultiTabChange = True\<rparr> False [Mount False 0 0 0 ''urlA'', Mount False 9 9 9 ''urlA''] (initialState ''a-100'') = Some (initialState ''a-100'') \<and>
   posted (initialState ''a-100'') = [] \<and> timers (initialState ''a-100'') = [] \<and>
   \<not> isSupported (initialState ''a-100'') \<and> tabCount (initialState ''a-100'') = 1 \<and>
   \<not> isMultiTab (initialState ''a-100'')"
proof -
  have r: "run \<lparr>inactivityThreshold = 30000, onMultiTabChange = True\<rparr> False [Mount False 0 0 0 ''urlA'', Mount False 9 9 9 ''urlA''] (initialState ''a-100'') = Some (initialState ''a-100'')"
    by (simp add: mountEffect_def initialState_def)
  from unsupported_inert [OF r] r show ?thesis by blast
qed

text \<open>
  Claim C9. Handling a \<^verbatim>\<open>request-leader\<close> message leaves the table, the published count,
  flag and url map and the callback calls as they are: the handler changes nothing but
  the posted messages, the timers, the next timer handle and
  \<^verbatim>\<open>leaderElectionTimerRef\<close>. For a message of another instance it posts what
  \<^verbatim>\<open>sendMessage('heartbeat')\<close> posts and leaves a pending leader re-evaluation under a
  fresh handle.
\<close>

theorem requestLeader_frame:
  assumes "m_type message = RequestLeader"
  shows
  "activeTabsRef (handleMessage cfg tSend now u message s) = activeTabsRef s \<and>
   tabCount (handleMessage cfg tSend now u message s) = tabCount s \<and>
   isMultiTab (handleMessage cfg tSend now u message s) = isMultiTab s \<and>
   activeTabUrls (handleMessage cfg tSend now u message s) = activeTabUrls s \<and>
   callbackCalls (handleMessage cfg tSend now u message s) = callbackCalls s \<and>
   (handleMessage cfg tSend now u message s)
      \<lparr>posted := posted s, timers := timers s, nextHandle := nextHandle s,
       leaderElectionTimerRef := leaderElectionTimerRef s\<rparr> = s \<and>
   (m_tabId message \<noteq> tabIdRef s \<longrightarrow>
      posted (handleMessage cfg tSend now u message s) = posted (sendMessage tSend u Heartbeat s) \<and>
      leaderElectionTimerRef (handleMessage cfg tSend now u message s) = Some (nextHandle s) \<and>
      (nextHandle s, LeaderElectionTask) \<in> set (timers (handleMessage cfg tSend now u message s)))"
proof (cases "m_tabId message = tabIdRef s")
  case True
  then show ?thesis by (simp add: handleMessage_self)
next
  case False
  have "(nextHandle s, LeaderElectionTask) \<in>
      set (timers (clearIfSet (leaderElectionTimerRef s) s) @ [(nextHandle s, LeaderElectionTask)])"
    by simp
  with False show ?thesis
    by (simp add: handleMessage_RequestLeader_eq [OF assms False])
qed

theorem requestLeader_frame_witness:
  "m_type \<lparr>m_type = RequestLeader, m_tabId = ''b-200'', m_timestamp = 5, m_url = Some ''urlB''\<rparr> = RequestLeader \<and>
   m_tabId \<lparr>m_type = RequestLeader, m_tabId = ''b-200'', m_timestamp = 5, m_url = Some ''urlB''\<rparr> \<noteq> tabIdRef ((initialState ''a-100'')\<lparr>channelRef := Some ChannelOpen\<rparr>) \<and>
   activeTabsRef (handleMessage \<lparr>inactivityThreshold = 30000, onMultiTabChange = True\<rparr> 7 8 ''urlA'' \<lparr>m_type = RequestLeader, m_tabId = ''b-200'', m_timestamp = 5, m_url = Some ''urlB''\<rparr> ((initialState ''a-100'')\<lparr>channelRef := Some ChannelOpen\<rparr>)) = activeTabsRef ((initialState ''a-100'')\<lparr>channelRef := Some ChannelOpen\<rparr>) \<and>
   tabCount (handleMessage \<lparr>inactivityThreshold = 30000, onMultiTabChange = True\<rparr> 7 8 ''urlA'' \<lparr>m_type = RequestLeader, m_tabId = ''b-200'', m_timestamp = 5, m_url = Some ''urlB''\<rparr> ((initialState ''a-100'')\<lparr>channelRef := Some ChannelOpen\<rparr>)) = tabCount ((initialState ''a-100'')\<lparr>channelRef := Some ChannelOpen\<rparr>) \<and>
   callbackCalls (handleMessage \<lparr>inactivityThreshold = 30000, onMultiTabChange = True\<rparr> 7 8 ''urlA'' \<lparr>m_type = RequestLeader, m_tabId = ''b-200'', m_timestamp = 5, m_url = Some ''urlB''\<rparr> ((initialState ''a-100'')\<lparr>channelRef := Some ChannelOpen\<rparr>)) = callbackCalls ((initialState ''a-100'')\<lparr>channelRef := Some ChannelOpen\<rparr>) \<and>
   posted (handleMessage \<lparr>inactivityThreshold = 30000, onMultiTabChange = True\<rparr> 7 8 ''urlA'' \<lparr>m_type = RequestLeader, m_tabId = ''b-200'', m_timestamp = 5, m_url = Some ''urlB''\<rparr> ((initialState ''a-100'')\<lparr>channelRef := Some ChannelOpen\<rparr>)) =
     posted (sendMessage 7 ''urlA'' Heartbeat ((initialState ''a-100'')\<lparr>channelRef := Some ChannelOpen\<rparr>)) \<and>
   leaderElectionTimerRef (handleMessage \<lparr>inactivityThreshold = 30000, onMultiTabChange = True\<rparr> 7 8 ''urlA'' \<lparr>m_type = RequestLeader, m_tabId = ''b-200'', m_timestamp = 5, m_url = Some ''urlB''\<rparr> ((initialState ''a-100'')\<lparr>channelRef := Some ChannelOpen\<rparr>)) = Some (nextHandle ((initialState ''a-100'')\<lparr>channelRef := Some ChannelOpen\<rparr>))"
proof -
  have ty: "m_type \<lparr>m_type = RequestLeader, m_tabId = ''b-200'', m_timestamp = 5, m_url = Some ''urlB''\<rparr> = RequestLeader"
    by simp
  have other: "m_tabId \<lparr>m_type = RequestLeader, m_tabId = ''b-200'', m_timestamp = 5, m_url = Some ''urlB''\<rparr> \<noteq> tabIdRef ((initialState ''a-100'')\<lparr>channelRef := Some ChannelOpen\<rparr>)"
    by (simp add: initialState_def)
  from requestLeader_frame [OF ty, of "\<lparr>inactivityThreshold = 30000, onMultiTabChange = True\<rparr>" 7 8 "''urlA''" "((initialState ''a-100'')\<lparr>channelRef := Some ChannelOpen\<rparr>)"]
  show ?thesis using ty other by blast
qed

text \<open>
  Claim C10. In every state of a run the stored last-notified pair is the pair of flag
  and count of the latest callback call, or \<open>(false, 1)\<close> when the callback was never
  called. No event changes the pair without calling the callback, and a recomputation
  while the instance is not the leader or has no callback calls nothing and leaves the
  pair as it is.
\<close>

theorem lastNotified_invariant:
  "(run cfg supp es (initialState tid) = Some s \<longrightarrow>
      (prevIsMultiTabRef s, prevTabCountRef s) =
        (if callbackCalls s = [] then (False, 1)
         else (fst (last (callbackCalls s)), fst (snd (last (callbackCalls s)))))) \<and>
   (step cfg supp e s0 = Some s1 \<and> callbackCalls s1 = callbackCalls s0 \<longrightarrow>
      prevIsMultiTabRef s1 = prevIsMultiTabRef s0 \<and> prevTabCountRef s1 = prevTabCountRef s0) \<and>
   (\<not> isLeaderRef (updateTabState cfg now u s0) \<or> \<not> onMultiTabChange cfg \<longrightarrow>
      callbackCalls (updateTabState cfg now u s0) = callbackCalls s0 \<and>
      prevIsMultiTabRef (updateTabState cfg now u s0) = prevIsMultiTabRef s0 \<and>
      prevTabCountRef (updateTabState cfg now u s0) = prevTabCountRef s0)"
proof -
  have a: "(prevIsMultiTabRef s, prevTabCountRef s) =
        (if callbackCalls s = [] then (False, 1)
         else (fst (last (callbackCalls s)), fst (snd (last (callbackCalls s)))))"
    if "run cfg supp es (initialState tid) = Some s"
    using run_notifiedInv [OF that] by (simp only: notifiedInv_def)
  have b: "callbackCalls (updateTabState cfg now u s0) = callbackCalls s0"
    if "\<not> isLeaderRef (updateTabState cfg now u s0) \<or> \<not> onMultiTabChange cfg"
    using that by (subst updateTabState_calls) auto
  show ?thesis
    using a b step_quiet [of cfg supp e s0 s1] updateTabState_quiet [of cfg now u s0]
    by blast
qed

theorem lastNotified_invariant_witness:
  "run \<lparr>inactivityThreshold = 30000, onMultiTabChange = True\<rparr> True [Mount False 0 0 0 ''urlA'', Deliver \<lparr>m_type = Heartbeat, m_tabId = ''b-200'', m_timestamp = 5, m_url = Some ''urlB''\<rparr> 6 6 ''urlA''] (initialState ''a-100'') =
     Some (the (run \<lparr>inactivityThreshold = 30000, onMultiTabChange = True\<rparr> True [Mount False 0 0 0 ''urlA'', Deliver \<lparr>m_type = Heartbeat, m_tabId = ''b-200'', m_timestamp = 5, m_url = Some ''urlB''\<rparr> 6 6 ''urlA''] (initialState ''a-100''))) \<and>
   last (callbackCalls (the (run \<lparr>inactivityThreshold = 30000, onMultiTabChange = True\<rparr> True [Mount False 0 0 0 ''urlA'', Deliver \<lparr>m_type = Heartbeat, m_tabId = ''b-200'', m_timestamp = 5, m_url = Some ''urlB''\<rparr> 6 6 ''urlA''] (initialState ''a-100'')))) =
     (True, 2, [(''a-100'', ''urlA''), (''b-200'', ''urlB'')]) \<and>
   (prevIsMultiTabRef (the (run \<lparr>inactivityThreshold = 30000, onMultiTabChange = True\<rparr> True [Mount False 0 0 0 ''urlA'', Deliver \<lparr>m_type = Heartbeat, m_tabId = ''b-200'', m_timestamp = 5, m_url = Some ''urlB''\<rparr> 6 6 ''urlA''] (initialState ''a-100''))),
    prevTabCountRef (the (run \<lparr>inactivityThreshold = 30000, onMultiTabChange = True\<rparr> True [Mount False 0 0 0 ''urlA'', Deliver \<lparr>m_type = Heartbeat, m_tabId = ''b-200'', m_timestamp = 5, m_url = Some ''urlB''\<rparr> 6 6 ''urlA''] (initialState ''a-100'')))) = (True, 2) \<and>
   step \<lparr>inactivityThreshold = 30000, onMultiTabChange = True\<rparr> True (Mount True 1 1 1 ''urlB'') ((initialState ''b-200'')\<lparr>activeTabsRef := [(''a-100'', \<lparr>tabId = ''a-100'', lastHeartbeat = 7, url = ''urlA''\<rparr>)]\<rparr>) =
     Some (the (step \<lparr>inactivityThreshold = 30000, onMultiTabChange = True\<rparr> True (Mount True 1 1 1 ''urlB'') ((initialState ''b-200'')\<lparr>activeTabsRef := [(''a-100'', \<lparr>tabId = ''a-100'', lastHeartbeat = 7, url = ''urlA''\<rparr>)]\<rparr>))) \<and>
   callbackCalls (the (step \<lparr>inactivityThreshold = 30000, onMultiTabChange = True\<rparr> True (Mount True 1 1 1 ''urlB'') ((initialState ''b-200'')\<lparr>activeTabsRef := [(''a-100'', \<lparr>tabId = ''a-100'', lastHeartbeat = 7, url = ''urlA''\<rparr>)]\<rparr>))) =
     callbackCalls ((initialState ''b-200'')\<lparr>activeTabsRef := [(''a-100'', \<lparr>tabId = ''a-100'', lastHeartbeat = 7, url = ''urlA''\<rparr>)]\<rparr>) \<and>
   prevTabCountRef (the (step \<lparr>inactivityThreshold = 30000, onMultiTabChange = True\<rparr> True (Mount True 1 1 1 ''urlB'') ((initialState ''b-200'')\<lparr>activeTabsRef := [(''a-100'', \<lparr>tabId = ''a-100'', lastHeartbeat = 7, url = ''urlA''\<rparr>)]\<rparr>))) =
     prevTabCountRef ((initialState ''b-200'')\<lparr>activeTabsRef := [(''a-100'', \<lparr>tabId = ''a-100'', lastHeartbeat = 7, url = ''urlA''\<rparr>)]\<rparr>) \<and>
   \<not> isLeaderRef (updateTabState \<lparr>inactivityThreshold = 30000, onMultiTabChange = True\<rparr> 10 ''urlB'' ((initialState ''b-200'')\<lparr>activeTabsRef := [(''a-100'', \<lparr>tabId = ''a-100'', lastHeartbeat = 7, url = ''urlA''\<rparr>)]\<rparr>)) \<and>
   callbackCalls (updateTabState \<lparr>inactivityThreshold = 30000, onMultiTabChange = True\<rparr> 10 ''urlB'' ((initialState ''b-200'')\<lparr>activeTabsRef := [(''a-100'', \<lparr>tabId = ''a-100'', lastHeartbeat = 7, url = ''urlA''\<rparr>)]\<rparr>)) =
     callbackCalls ((initialState ''b-200'')\<lparr>activeTabsRef := [(''a-100'', \<lparr>tabId = ''a-100'', lastHeartbeat = 7, url = ''urlA''\<rparr>)]\<rparr>)"
proof -
  have r: "run \<lparr>inactivityThreshold = 30000, onMultiTabChange = True\<rparr> True [Mount False 0 0 0 ''urlA'', Deliver \<lparr>m_type = Heartbeat, m_tabId = ''b-200'', m_timestamp = 5, m_url = Some ''urlB''\<rparr> 6 6 ''urlA''] (initialState ''a-100'') =
     Some (the (run \<lparr>inactivityThreshold = 30000, onMultiTabChange = True\<rparr> True [Mount False 0 0 0 ''urlA'', Deliver \<lparr>m_type = Heartbeat, m_tabId = ''b-200'', m_timestamp = 5, m_url = Some ''urlB''\<rparr> 6 6 ''urlA''] (initialState ''a-100'')))"
    by code_simp
  have ne: "callbackCalls (the (run \<lparr>inactivityThreshold = 30000, onMultiTabChange = True\<rparr> True [Mount False 0 0 0 ''urlA'', Deliver \<lparr>m_type = Heartbeat, m_tabId = ''b-200'', m_timestamp = 5, m_url = Some ''urlB''\<rparr> 6 6 ''urlA''] (initialState ''a-100''))) \<noteq> []"
    by code_simp
  have l: "last (callbackCalls (the (run \<lparr>inactivityThreshold = 30000, onMultiTabChange = True\<rparr> True [Mount False 0 0 0 ''urlA'', Deliver \<lparr>m_type = Heartbeat, m_tabId = ''b-200'', m_timestamp = 5, m_url = Some ''urlB''\<rparr> 6 6 ''urlA''] (initialState ''a-100'')))) =
     (True, 2, [(''a-100'', ''urlA''), (''b-200'', ''urlB'')])"
    by code_simp
  have st: "step \<lparr>inactivityThreshold = 30000, onMultiTabChange = True\<rparr> True (Mount True 1 1 1 ''urlB'') ((initialState ''b-200'')\<lparr>activeTabsRef := [(''a-100'', \<lparr>tabId = ''a-100'', lastHeartbeat = 7, url = ''urlA''\<rparr>)]\<rparr>) =
     Some (the (step \<lparr>inactivityThreshold = 30000, onMultiTabChange = True\<rparr> True (Mount True 1 1 1 ''urlB'') ((initialState ''b-200'')\<lparr>activeTabsRef := [(''a-100'', \<lparr>tabId = ''a-100'', lastHeartbeat = 7, url = ''urlA''\<rparr>)]\<rparr>)))"
    by code_simp
  have same: "callbackCalls (the (step \<lparr>inactivityThreshold = 30000, onMultiTabChange = True\<rparr> True (Mount True 1 1 1 ''urlB'') ((initialState ''b-200'')\<lparr>activeTabsRef := [(''a-100'', \<lparr>tabId = ''a-100'', lastHeartbeat = 7, url = ''urlA''\<rparr>)]\<rparr>))) =
     callbackCalls ((initialState ''b-200'')\<lparr>activeTabsRef := [(''a-100'', \<lparr>tabId = ''a-100'', lastHeartbeat = 7, url = ''urlA''\<rparr>)]\<rparr>)"
    by code_simp
  have nl: "\<not> isLeaderRef (updateTabState \<lparr>inactivityThreshold = 30000, onMultiTabChange = True\<rparr> 10 ''urlB'' ((initialState ''b-200'')\<lparr>activeTabsRef := [(''a-100'', \<lparr>tabId = ''a-100'', lastHeartbeat = 7, url = ''urlA''\<rparr>)]\<rparr>))"
    by code_simp
  from lastNotified_invariant
    [where cfg = "\<lparr>inactivityThreshold = 30000, onMultiTabChange = True\<rparr>" and supp = True and tid = "''a-100''"
       and es = "[Mount False 0 0 0 ''urlA'', Deliver \<lparr>m_type = Heartbeat, m_tabId = ''b-200'', m_timestamp = 5, m_url = Some ''urlB''\<rparr> 6 6 ''urlA'']"
       and s = "(the (run \<lparr>inactivityThreshold = 30000, onMultiTabChange = True\<rparr> True [Mount False 0 0 0 ''urlA'', Deliver \<lparr>m_type = Heartbeat, m_tabId = ''b-200'', m_timestamp = 5, m_url = Some ''urlB''\<rparr> 6 6 ''urlA''] (initialState ''a-100'')))"
       and e = "(Mount True 1 1 1 ''urlB'')"
       and ?s0.0 = "((initialState ''b-200'')\<lparr>activeTabsRef := [(''a-100'', \<lparr>tabId = ''a-100'', lastHeartbeat = 7, url = ''urlA''\<rparr>)]\<rparr>)"
       and ?s1.0 = "(the (step \<lparr>inactivityThreshold = 30000, onMultiTabChange = True\<rparr> True (Mount True 1 1 1 ''urlB'') ((initialState ''b-200'')\<lparr>activeTabsRef := [(''a-100'', \<lparr>tabId = ''a-100'', lastHeartbeat = 7, url = ''urlA''\<rparr>)]\<rparr>)))"
       and now = 10 and u = "''urlB''"]
  show ?thesis using r ne l st same nl by simp
qed



text \<open>
  Claim C3 says that only the reaper's sweep removes entries for staleness, and that
  handling a heartbeat of one peer never removes another peer's entry for its old
  timestamp. The code does otherwise: \<^verbatim>\<open>updateTabState\<close> itself keeps only the entries with
  \<open>now - lastHeartbeat < inactivityThreshold\<close>, and it runs in every handler that changes
  the table. In the run below the entry of \<open>c\<close> (last heartbeat at 0) survives the sweep at
  15000 and is removed when a heartbeat of \<open>b\<close> is handled at 30000.
\<close>

theorem heartbeat_evicts_other_peer:
  "run \<lparr>inactivityThreshold = 30000, onMultiTabChange = True\<rparr> True
     [Mount False 0 0 0 ''urlA'',
      Deliver \<lparr>m_type = Heartbeat, m_tabId = ''c'', m_timestamp = 0, m_url = Some ''urlC''\<rparr> 6 6 ''urlA'',
      CleanupTick 15000 15000 ''urlA'']
     (initialState ''a'') \<noteq> None \<and>
   Map_get (activeTabsRef (the (run \<lparr>inactivityThreshold = 30000, onMultiTabChange = True\<rparr> True
     [Mount False 0 0 0 ''urlA'',
      Deliver \<lparr>m_type = Heartbeat, m_tabId = ''c'', m_timestamp = 0, m_url = Some ''urlC''\<rparr> 6 6 ''urlA'',
      CleanupTick 15000 15000 ''urlA'']
     (initialState ''a'')))) ''c'' =
     Some \<lparr>tabId = ''c'', lastHeartbeat = 0, url = ''urlC''\<rparr> \<and>
   Map_get (activeTabsRef
     (handleMessage \<lparr>inactivityThreshold = 30000, onMultiTabChange = True\<rparr> 30000 30000 ''urlA''
        \<lparr>m_type = Heartbeat, m_tabId = ''b'', m_timestamp = 30000, m_url = Some ''urlB''\<rparr>
        (the (run \<lparr>inactivityThreshold = 30000, onMultiTabChange = True\<rparr> True
     [Mount False 0 0 0 ''urlA'',
      Deliver \<lparr>m_type = Heartbeat, m_tabId = ''c'', m_timestamp = 0, m_url = Some ''urlC''\<rparr> 6 6 ''urlA'',
      CleanupTick 15000 15000 ''urlA'']
     (initialState ''a''))))) ''c'' = None"
  by code_simp

text \<open>
  Claim C3, amended. Entries are removed for staleness by every recomputation as well
  as by the sweep. On a table with unique keys, \<^verbatim>\<open>updateTabState\<close>, and with it the
  handling of a heartbeat, request-active-tabs or tab-closed message of one peer, keeps
  the entry of another peer unchanged exactly when
  \<open>now - lastHeartbeat < inactivityThreshold\<close> at its own clock reading and removes it
  otherwise. The operations that do not recompute leave the table as it is: handling
  \<^verbatim>\<open>request-leader\<close>, \<^verbatim>\<open>sendMessage\<close>, \<^verbatim>\<open>determineLeadership\<close> and the teardown.
\<close>

theorem recomputation_evicts_stale:
  assumes "distinct (Map_keys (activeTabsRef s))" "k \<noteq> tabIdRef s"
  shows
  "Map_get (activeTabsRef (updateTabState cfg now u s)) k =
     (case Map_get (activeTabsRef s) k of
        None \<Rightarrow> None
      | Some i \<Rightarrow> if now - lastHeartbeat i < inactivityThreshold cfg then Some i else None) \<and>
   (m_tabId m \<noteq> tabIdRef s \<and> k \<noteq> m_tabId m \<and> m_type m \<noteq> RequestLeader \<longrightarrow>
      Map_get (activeTabsRef (handleMessage cfg tSend now u m s)) k =
        (case Map_get (activeTabsRef s) k of
           None \<Rightarrow> None
         | Some i \<Rightarrow> if now - lastHeartbeat i < inactivityThreshold cfg then Some i else None)) \<and>
   (m_type m' = RequestLeader \<longrightarrow>
      activeTabsRef (handleMessage cfg tSend now u m' s) = activeTabsRef s) \<and>
   activeTabsRef (sendMessage t u ty s) = activeTabsRef s \<and>
   activeTabsRef (snd (determineLeadership s)) = activeTabsRef s \<and>
   activeTabsRef (unmountEffect t u s) = activeTabsRef s"
proof -
  have rl: "activeTabsRef (handleMessage cfg tSend now u m' s) = activeTabsRef s"
    if "m_type m' = RequestLeader"
    using that
    by (cases "m_tabId m' = tabIdRef s")
       (simp_all add: handleMessage_self handleMessage_RequestLeader_eq)
  show ?thesis
    using updateTabState_get_other [OF assms, of cfg now u]
      handleMessage_get_other [OF assms, of m cfg tSend now u] rl
    by (simp add: sendMessage_frame unmountEffect_frame determineLeadership_snd)
qed

theorem recomputation_evicts_stale_witness:
  "distinct (Map_keys (activeTabsRef (the (run \<lparr>inactivityThreshold = 30000, onMultiTabChange = True\<rparr> True
     [Mount False 0 0 0 ''urlA'',
      Deliver \<lparr>m_type = Heartbeat, m_tabId = ''c'', m_timestamp = 0, m_url = Some ''urlC''\<rparr> 6 6 ''urlA'',
      CleanupTick 15000 15000 ''urlA'']
     (initialState ''a''))))) \<and>
   ''c'' \<noteq> tabIdRef (the (run \<lparr>inactivityThreshold = 30000, onMultiTabChange = True\<rparr> True
     [Mount False 0 0 0 ''urlA'',
      Deliver \<lparr>m_type = Heartbeat, m_tabId = ''c'', m_timestamp = 0, m_url = Some ''urlC''\<rparr> 6 6 ''urlA'',
      CleanupTick 15000 15000 ''urlA'']
     (initialState ''a''))) \<and>
   m_tabId \<lparr>m_type = Heartbeat, m_tabId = ''b'', m_timestamp = 20000, m_url = Some ''urlB''\<rparr> \<noteq>
     tabIdRef (the (run \<lparr>inactivityThreshold = 30000, onMultiTabChange = True\<rparr> True
     [Mount False 0 0 0 ''urlA'',
      Deliver \<lparr>m_type = Heartbeat, m_tabId = ''c'', m_timestamp = 0, m_url = Some ''urlC''\<rparr> 6 6 ''urlA'',
      CleanupTick 15000 15000 ''urlA'']
     (initialState ''a''))) \<and>
   Map_get (activeTabsRef
     (handleMessage \<lparr>inactivityThreshold = 30000, onMultiTabChange = True\<rparr> 20000 20000 ''urlA''
        \<lparr>m_type = Heartbeat, m_tabId = ''b'', m_timestamp = 20000, m_url = Some ''urlB''\<rparr>
        (the (run \<lparr>inactivityThreshold = 30000, onMultiTabChange = True\<rparr> True
     [Mount False 0 0 0 ''urlA'',
      Deliver \<lparr>m_type = Heartbeat, m_tabId = ''c'', m_timestamp = 0, m_url = Some ''urlC''\<rparr> 6 6 ''urlA'',
      CleanupTick 15000 15000 ''urlA'']
     (initialState ''a''))))) ''c'' =
     Some \<lparr>tabId = ''c'', lastHeartbeat = 0, url = ''urlC''\<rparr> \<and>
   m_type \<lparr>m_type = RequestLeader, m_tabId = ''b'', m_timestamp = 20000, m_url = Some ''urlB''\<rparr> = RequestLeader \<and>
   activeTabsRef
     (handleMessage \<lparr>inactivityThreshold = 30000, onMultiTabChange = True\<rparr> 20000 20000 ''urlA''
        \<lparr>m_type = RequestLeader, m_tabId = ''b'', m_timestamp = 20000, m_url = Some ''urlB''\<rparr>
        (the (run \<lparr>inactivityThreshold = 30000, onMultiTabChange = True\<rparr> True
     [Mount False 0 0 0 ''urlA'',
      Deliver \<lparr>m_type = Heartbeat, m_tabId = ''c'', m_timestamp = 0, m_url = Some ''urlC''\<rparr> 6 6 ''urlA'',
      CleanupTick 15000 15000 ''urlA'']
     (initialState ''a'')))) =
   activeTabsRef (the (run \<lparr>inactivityThreshold = 30000, onMultiTabChange = True\<rparr> True
     [Mount False 0 0 0 ''urlA'',
      Deliver \<lparr>m_type = Heartbeat, m_tabId = ''c'', m_timestamp = 0, m_url = Some ''urlC''\<rparr> 6 6 ''urlA'',
      CleanupTick 15000 15000 ''urlA'']
     (initialState ''a'')))"
proof -
  have d: "distinct (Map_keys (activeTabsRef (the (run \<lparr>inactivityThreshold = 30000, onMultiTabChange = True\<rparr> True
     [Mount False 0 0 0 ''urlA'',
      Deliver \<lparr>m_type = Heartbeat, m_tabId = ''c'', m_timestamp = 0, m_url = Some ''urlC''\<rparr> 6 6 ''urlA'',
      CleanupTick 15000 15000 ''urlA'']
     (initialState ''a'')))))"
    by code_simp
  have k: "''c'' \<noteq> tabIdRef (the (run \<lparr>inactivityThreshold = 30000, onMultiTabChange = True\<rparr> True
     [Mount False 0 0 0 ''urlA'',
      Deliver \<lparr>m_type = Heartbeat, m_tabId = ''c'', m_timestamp = 0, m_url = Some ''urlC''\<rparr> 6 6 ''urlA'',
      CleanupTick 15000 15000 ''urlA'']
     (initialState ''a'')))"
    by code_simp
  have o: "m_tabId \<lparr>m_type = Heartbeat, m_tabId = ''b'', m_timestamp = 20000, m_url = Some ''urlB''\<rparr> \<noteq>
     tabIdRef (the (run \<lparr>inactivityThreshold = 30000, onMultiTabChange = True\<rparr> True
     [Mount False 0 0 0 ''urlA'',
      Deliver \<lparr>m_type = Heartbeat, m_tabId = ''c'', m_timestamp = 0, m_url = Some ''urlC''\<rparr> 6 6 ''urlA'',
      CleanupTick 15000 15000 ''urlA'']
     (initialState ''a'')))"
    by code_simp
  have g: "Map_get (activeTabsRef (the (run \<lparr>inactivityThreshold = 30000, onMultiTabChange = True\<rparr> True
     [Mount False 0 0 0 ''urlA'',
      Deliver \<lparr>m_type = Heartbeat, m_tabId = ''c'', m_timestamp = 0, m_url = Some ''urlC''\<rparr> 6 6 ''urlA'',
      CleanupTick 15000 15000 ''urlA'']
     (initialState ''a'')))) ''c'' =
     Some \<lparr>tabId = ''c'', lastHeartbeat = 0, url = ''urlC''\<rparr>"
    by code_simp
  from recomputation_evicts_stale [OF d k,
    where m = "\<lparr>m_type = Heartbeat, m_tabId = ''b'', m_timestamp = 20000, m_url = Some ''urlB''\<rparr>"
      and m' = "\<lparr>m_type = RequestLeader, m_tabId = ''b'', m_timestamp = 20000, m_url = Some ''urlB''\<rparr>"
      and cfg = "\<lparr>inactivityThreshold = 30000, onMultiTabChange = True\<rparr>" and tSend = 20000 and now = 20000 and u = "''urlA''"]
  show ?thesis using d k o g by simp
qed

text \<open>
  Claim C6 says that for every heartbeat or request-active-tabs message of another
  instance the sender's entry is created or overwritten with the message's timestamp
  and url. The handler does set that entry, but it then runs \<^verbatim>\<open>updateTabState\<close>, which
  drops the entry again when the timestamp is stale at the local clock. Below, a
  heartbeat stamped 60000 is handled at 100000 and the sender has no entry afterwards.
\<close>

theorem stale_heartbeat_leaves_no_entry:
  "run \<lparr>inactivityThreshold = 30000, onMultiTabChange = True\<rparr> True [Mount False 99990 99990 99990 ''urlA''] (initialState ''a-100'') \<noteq> None \<and>
   m_tabId \<lparr>m_type = Heartbeat, m_tabId = ''b-200'', m_timestamp = 60000, m_url = Some ''urlB''\<rparr> \<noteq>
     tabIdRef (the (run \<lparr>inactivityThreshold = 30000, onMultiTabChange = True\<rparr> True [Mount False 99990 99990 99990 ''urlA''] (initialState ''a-100''))) \<and>
   Map_get (activeTabsRef
     (handleMessage \<lparr>inactivityThreshold = 30000, onMultiTabChange = True\<rparr> 100000 100000 ''urlA''
        \<lparr>m_type = Heartbeat, m_tabId = ''b-200'', m_timestamp = 60000, m_url = Some ''urlB''\<rparr>
        (the (run \<lparr>inactivityThreshold = 30000, onMultiTabChange = True\<rparr> True [Mount False 99990 99990 99990 ''urlA''] (initialState ''a-100''))))) ''b-200'' = None"
  by code_simp

text \<open>
  Claim C6, amended. For a heartbeat or request-active-tabs message of another
  instance, handled on a table with unique keys, the sender's entry after the handler
  carries the sender-supplied timestamp and the message's url (the empty string when
  the url is missing), provided \<open>now - timestamp < inactivityThreshold\<close> at the local
  clock; otherwise the sender has no entry after the handler. A request-active-tabs
  message additionally posts exactly one heartbeat when the channel is open; a
  heartbeat message posts nothing.
\<close>

theorem upsert_survives_iff_fresh:
  assumes "distinct (Map_keys (activeTabsRef s))" "m_tabId m \<noteq> tabIdRef s"
    "m_type m = Heartbeat \<or> m_type m = RequestActiveTabs"
  shows
  "Map_get (activeTabsRef (handleMessage cfg tSend now u m s)) (m_tabId m) =
     (if now - m_timestamp m < inactivityThreshold cfg
      then Some \<lparr>tabId = m_tabId m, lastHeartbeat = m_timestamp m,
                 url = (case m_url m of None \<Rightarrow> [] | Some u \<Rightarrow> u)\<rparr>
      else None) \<and>
   posted (handleMessage cfg tSend now u m s) =
     (if m_type m = RequestActiveTabs \<and> channelRef s = Some ChannelOpen
      then posted s @ [\<lparr>m_type = Heartbeat, m_tabId = tabIdRef s, m_timestamp = tSend,
                         m_url = Some u\<rparr>]
      else posted s)"
  using handleMessage_get_sender [OF assms] by blast

theorem upsert_survives_iff_fresh_witness:
  "distinct (Map_keys (activeTabsRef (the (run \<lparr>inactivityThreshold = 30000, onMultiTabChange = True\<rparr> True [Mount False 99990 99990 99990 ''urlA''] (initialState ''a-100''))))) \<and>
   m_tabId \<lparr>m_type = RequestActiveTabs, m_tabId = ''b-200'', m_timestamp = 99995, m_url = None\<rparr> \<noteq>
     tabIdRef (the (run \<lparr>inactivityThreshold = 30000, onMultiTabChange = True\<rparr> True [Mount False 99990 99990 99990 ''urlA''] (initialState ''a-100''))) \<and>
   m_type \<lparr>m_type = RequestActiveTabs, m_tabId = ''b-200'', m_timestamp = 99995, m_url = None\<rparr> = RequestActiveTabs \<and>
   Map_get (activeTabsRef
     (handleMessage \<lparr>inactivityThreshold = 30000, onMultiTabChange = True\<rparr> 99996 99997 ''urlA''
        \<lparr>m_type = RequestActiveTabs, m_tabId = ''b-200'', m_timestamp = 99995, m_url = None\<rparr>
        (the (run \<lparr>inactivityThreshold = 30000, onMultiTabChange = True\<rparr> True [Mount False 99990 99990 99990 ''urlA''] (initialState ''a-100''))))) ''b-200'' =
     Some \<lparr>tabId = ''b-200'', lastHeartbeat = 99995, url = []\<rparr> \<and>
   posted
     (handleMessage \<lparr>inactivityThreshold = 30000, onMultiTabChange = True\<rparr> 99996 99997 ''urlA''
        \<lparr>m_type = RequestActiveTabs, m_tabId = ''b-200'', m_timestamp = 99995, m_url = None\<rparr>
        (the (run \<lparr>inactivityThreshold = 30000, onMultiTabChange = True\<rparr> True [Mount False 99990 99990 99990 ''urlA''] (initialState ''a-100'')))) =
   posted (the (run \<lparr>inactivityThreshold = 30000, onMultiTabChange = True\<rparr> True [Mount False 99990 99990 99990 ''urlA''] (initialState ''a-100''))) @
     [\<lparr>m_type = Heartbeat, m_tabId = ''a-100'', m_timestamp = 99996, m_url = Some ''urlA''\<rparr>]"
proof -
  have d: "distinct (Map_keys (activeTabsRef (the (run \<lparr>inactivityThreshold = 30000, onMultiTabChange = True\<rparr> True [Mount False 99990 99990 99990 ''urlA''] (initialState ''a-100'')))))"
    by code_simp
  have o: "m_tabId \<lparr>m_type = RequestActiveTabs, m_tabId = ''b-200'', m_timestamp = 99995, m_url = None\<rparr> \<noteq>
     tabIdRef (the (run \<lparr>inactivityThreshold = 30000, onMultiTabChange = True\<rparr> True [Mount False 99990 99990 99990 ''urlA''] (initialState ''a-100'')))"
    by code_simp
  have ty: "m_type \<lparr>m_type = RequestActiveTabs, m_tabId = ''b-200'', m_timestamp = 99995, m_url = None\<rparr> = Heartbeat \<or>
     m_type \<lparr>m_type = RequestActiveTabs, m_tabId = ''b-200'', m_timestamp = 99995, m_url = None\<rparr> = RequestActiveTabs"
    by simp
  have ch: "channelRef (the (run \<lparr>inactivityThreshold = 30000, onMultiTabChange = True\<rparr> True [Mount False 99990 99990 99990 ''urlA''] (initialState ''a-100''))) = Some ChannelOpen"
    by code_simp
  have self: "tabIdRef (the (run \<lparr>inactivityThreshold = 30000, onMultiTabChange = True\<rparr> True [Mount False 99990 99990 99990 ''urlA''] (initialState ''a-100''))) = ''a-100''"
    by code_simp
  from upsert_survives_iff_fresh [OF d o ty,
    where cfg = "\<lparr>inactivityThreshold = 30000, onMultiTabChange = True\<rparr>" and tSend = 99996 and now = 99997 and u = "''urlA''"]
  show ?thesis using d o ch self by simp
qed

end
